theory Spec2Isabelle
  imports Complex_Main "HOL-Library.Word"
begin

unbundle bit_operations_syntax

section \<open>Python values used by the two services\<close>

text \<open>
  A Python \<open>str\<close> is a sequence of Unicode code points, and \<open>len\<close> counts code points,
  so a text is a list of code points. ASCII literals of the source are written with
  \<open>lit\<close>.
\<close>

type_synonym str = "nat list"

definition lit :: "string \<Rightarrow> str" where
  "lit s = map of_char s"

text \<open>
  \<open>str.isspace\<close> on one code point: the ASCII white space 0x09-0x0D, 0x1C-0x1F, 0x20 and
  the Unicode white space 0x85, 0xA0, 0x1680, 0x2000-0x200A, 0x2028, 0x2029, 0x202F,
  0x205F, 0x3000.
\<close>

definition isspace :: "nat \<Rightarrow> bool" where
  "isspace c \<longleftrightarrow>
     (9 \<le> c \<and> c \<le> 13) \<or> (28 \<le> c \<and> c \<le> 32) \<or> c = 133 \<or> c = 160 \<or> c = 5760 \<or>
     (8192 \<le> c \<and> c \<le> 8202) \<or> c = 8232 \<or> c = 8233 \<or> c = 8239 \<or> c = 8287 \<or> c = 12288"

text \<open>\<open>s.strip()\<close>: white space removed at both ends.\<close>

definition strip :: "str \<Rightarrow> str" where
  "strip s = rev (dropWhile isspace (rev (dropWhile isspace s)))"

text \<open>\<open>sep.join(xs)\<close>.\<close>

fun join :: "str \<Rightarrow> str list \<Rightarrow> str" where
  "join sep [] = []"
| "join sep [x] = x"
| "join sep (x # y # ys) = x @ sep @ join sep (y # ys)"

text \<open>
  An exception raised below a \<open>try\<close>: by a library call, with its message \<open>str(e)\<close>, or
  by indexing an empty array (\<open>IndexError\<close>) or by \<open>np.argmax\<close> of an empty array
  (\<open>ValueError\<close>).
\<close>

datatype py_exception = Raised str | IndexError | ValueError

text \<open>
  The \<open>detail\<close> of an \<open>HTTPException\<close>: a fixed text, or the f-string of a fixed prefix
  and \<open>str(e)\<close> of the exception caught.
\<close>

datatype detail = Text str | WithException str py_exception

datatype http_error = HTTPException (status_code: nat) (detail: detail)

text \<open>\<open>xs[0]\<close> on an array.\<close>

fun item0 :: "'a list \<Rightarrow> py_exception + 'a" where
  "item0 [] = Inl IndexError"
| "item0 (x # xs) = Inr x"

text \<open>
  \<open>np.argmax\<close> of a one-dimensional array: the first index of the greatest entry.
  Probabilities are floats that are only compared and selected, never computed with;
  they are modelled as reals (no NaN).
\<close>

fun argmax_from :: "real \<Rightarrow> nat \<Rightarrow> nat \<Rightarrow> real list \<Rightarrow> nat" where
  "argmax_from best bi i [] = bi"
| "argmax_from best bi i (x # xs) =
     (if best < x then argmax_from x i (Suc i) xs else argmax_from best bi (Suc i) xs)"

fun argmax :: "real list \<Rightarrow> py_exception + nat" where
  "argmax [] = Inl ValueError"
| "argmax (x # xs) = Inr (argmax_from x 0 1 xs)"

section \<open>unified\_api.py: the model registry\<close>

text \<open>
  A predictor object. \<open>predict_proba\<close> is \<open>None\<close> when \<open>hasattr(obj, 'predict_proba')\<close>
  is false. Every call into a model may raise. \<open>predict_proba\<close> returns a two-dimensional
  array (one row per sample), \<open>predict\<close> a one-dimensional array of class ids.
\<close>

record ('p, 'q) predictor =
  predict_proba :: "('p \<Rightarrow> py_exception + real list list) option"
  predict :: "'q \<Rightarrow> py_exception + int list"

text \<open>
  The vectorizer: \<open>transform\<close> maps a list of documents to a matrix; \<open>toarray\<close> is the
  method of that matrix the source calls on the path without probabilities.
\<close>

record ('m, 'a) vectorizer_obj =
  transform :: "str list \<Rightarrow> py_exception + 'm"
  toarray :: "'m \<Rightarrow> py_exception + 'a"

record label_encoder_obj =
  inverse_transform :: "int list \<Rightarrow> py_exception + str list"

text \<open>The four module-level variables; \<open>None\<close> until \<open>load_models\<close> assigns them.\<close>

record ('m, 'a) models =
  grievance_classifier :: "('m, 'a) predictor option"
  vectorizer :: "('m, 'a) vectorizer_obj option"
  label_encoder :: "label_encoder_obj option"
  spam_detection_model :: "(str list, str list) predictor option"

definition no_models :: "('m, 'a) models" where
  "no_models = \<lparr>grievance_classifier = None, vectorizer = None, label_encoder = None,
     spam_detection_model = None\<rparr>"

text \<open>
  What \<open>load_models\<close> finds on disk. A pickle file is missing
  (\<open>os.path.exists\<close> is false), or loading it raises, or it yields an object. For
  \<open>grievance_classifier.json\<close> the source imports xgboost, assigns a fresh
  \<open>Booster\<close> to the global and only then calls \<open>load_model\<close> on it.
\<close>

datatype 'o artifact = Missing | Corrupt py_exception | Loadable 'o

datatype 'o xgb_artifact =
    XgbMissing
  | XgbImportError py_exception
  | XgbLoadError 'o py_exception
  | XgbLoaded 'o

record ('m, 'a) model_files =
  grievance_classifier_pkl :: "('m, 'a) predictor artifact"
  grievance_classifier_json :: "('m, 'a) predictor xgb_artifact"
  vectorizer_pkl :: "('m, 'a) vectorizer_obj artifact"
  label_encoder_pkl :: "label_encoder_obj artifact"
  model_pkl :: "(str list, str list) predictor artifact"

text \<open>
  The four loading steps of \<open>load_models\<close>. Each returns whether it completed and the
  variables as it leaves them; a step that raises leaves the \<open>try\<close> block.
\<close>

definition load_classifier ::
  "('m, 'a) model_files \<Rightarrow> ('m, 'a) models \<Rightarrow> bool \<times> ('m, 'a) models" where
  "load_classifier fs st =
     (case grievance_classifier_pkl fs of
        Loadable c \<Rightarrow> (True, st\<lparr>grievance_classifier := Some c\<rparr>)
      | Corrupt e \<Rightarrow> (False, st)
      | Missing \<Rightarrow>
          (case grievance_classifier_json fs of
             XgbLoaded b \<Rightarrow> (True, st\<lparr>grievance_classifier := Some b\<rparr>)
           | XgbLoadError b e \<Rightarrow> (False, st\<lparr>grievance_classifier := Some b\<rparr>)
           | XgbImportError e \<Rightarrow> (False, st)
           | XgbMissing \<Rightarrow> (False, st)))"

definition load_vectorizer ::
  "('m, 'a) model_files \<Rightarrow> ('m, 'a) models \<Rightarrow> bool \<times> ('m, 'a) models" where
  "load_vectorizer fs st =
     (case vectorizer_pkl fs of
        Loadable v \<Rightarrow> (True, st\<lparr>vectorizer := Some v\<rparr>)
      | Corrupt e \<Rightarrow> (False, st)
      | Missing \<Rightarrow> (False, st))"

definition load_label_encoder ::
  "('m, 'a) model_files \<Rightarrow> ('m, 'a) models \<Rightarrow> bool \<times> ('m, 'a) models" where
  "load_label_encoder fs st =
     (case label_encoder_pkl fs of
        Loadable l \<Rightarrow> (True, st\<lparr>label_encoder := Some l\<rparr>)
      | Corrupt e \<Rightarrow> (False, st)
      | Missing \<Rightarrow> (False, st))"

definition load_spam_model ::
  "('m, 'a) model_files \<Rightarrow> ('m, 'a) models \<Rightarrow> bool \<times> ('m, 'a) models" where
  "load_spam_model fs st =
     (case model_pkl fs of
        Loadable s \<Rightarrow> (True, st\<lparr>spam_detection_model := Some s\<rparr>)
      | Corrupt e \<Rightarrow> (False, st)
      | Missing \<Rightarrow> (False, st))"

text \<open>
  \<open>load_models\<close>: one \<open>try\<close> block around the four steps in this order; the first
  exception ends it with \<open>False\<close>, and what was assigned before stays assigned.
\<close>

definition load_models ::
  "('m, 'a) model_files \<Rightarrow> ('m, 'a) models \<Rightarrow> bool \<times> ('m, 'a) models" where
  "load_models fs st =
     (case load_classifier fs st of
        (False, st1) \<Rightarrow> (False, st1)
      | (True, st1) \<Rightarrow>
          (case load_vectorizer fs st1 of
             (False, st2) \<Rightarrow> (False, st2)
           | (True, st2) \<Rightarrow>
               (case load_label_encoder fs st2 of
                  (False, st3) \<Rightarrow> (False, st3)
                | (True, st3) \<Rightarrow> load_spam_model fs st3)))"

text \<open>\<open>startup_event\<close>: the variables after \<open>load_models\<close> ran on the initial ones.\<close>

definition startup_event :: "('m, 'a) model_files \<Rightarrow> ('m, 'a) models" where
  "startup_event fs = snd (load_models fs no_models)"

section \<open>unified\_api.py: the three endpoints\<close>

record classification_result =
  grievance_category :: str
  confidence_score :: "real option"

text \<open>
  The dictionary \<open>detect_spam\<close> returns has the keys \<open>is_spam\<close> and \<open>confidence_score\<close>,
  the one of \<open>analyze_grievance\<close> the keys \<open>grievance_category\<close>, \<open>is_spam\<close>,
  \<open>category_confidence\<close> and \<open>spam_confidence\<close>; field names are unique per theory,
  so the repeated keys carry a suffix.
\<close>

record spam_result =
  is_spam :: bool
  confidence_score_spam :: "real option"

record combined_result =
  grievance_category_combined :: str
  is_spam_combined :: bool
  category_confidence :: "real option"
  spam_confidence :: "real option"

text \<open>The validation shared by the endpoints:
  \<open>not request.description or len(request.description.strip()) < 5\<close>.\<close>

definition invalid_description :: "str \<Rightarrow> bool" where
  "invalid_description d \<longleftrightarrow> d = [] \<or> length (strip d) < 5"

definition classification_unavailable :: "('m, 'a) models \<Rightarrow> bool" where
  "classification_unavailable st \<longleftrightarrow>
     grievance_classifier st = None \<or> vectorizer st = None \<or> label_encoder st = None"

definition spam_unavailable :: "('m, 'a) models \<Rightarrow> bool" where
  "spam_unavailable st \<longleftrightarrow> spam_detection_model st = None"

text \<open>
  The part of \<open>classify_grievance\<close> after the two checks. \<open>lower\<close> is Python's
  \<open>str.lower\<close>, whose Unicode case tables are not part of the repository; it is a
  parameter.
\<close>

definition classify_body ::
  "(str \<Rightarrow> str) \<Rightarrow> ('m, 'a) predictor \<Rightarrow> ('m, 'a) vectorizer_obj \<Rightarrow> label_encoder_obj \<Rightarrow> str
     \<Rightarrow> py_exception + classification_result" where
  "classify_body lower clf vz le d =
     (case transform vz [lower d] of Inl e \<Rightarrow> Inl e | Inr description_vectorized \<Rightarrow>
      (case predict_proba clf of
         Some proba \<Rightarrow>
           (case proba description_vectorized of Inl e \<Rightarrow> Inl e | Inr probabilities \<Rightarrow>
            (case item0 probabilities of Inl e \<Rightarrow> Inl e | Inr row \<Rightarrow>
             (case argmax row of Inl e \<Rightarrow> Inl e | Inr prediction_idx \<Rightarrow>
              (case inverse_transform le [int prediction_idx] of Inl e \<Rightarrow> Inl e | Inr labels \<Rightarrow>
               (case item0 labels of Inl e \<Rightarrow> Inl e | Inr category_prediction \<Rightarrow>
                  Inr \<lparr>grievance_category = category_prediction,
                       confidence_score = Some (row ! prediction_idx)\<rparr>)))))
       | None \<Rightarrow>
           (case toarray vz description_vectorized of Inl e \<Rightarrow> Inl e | Inr arr \<Rightarrow>
            (case predict clf arr of Inl e \<Rightarrow> Inl e | Inr predictions \<Rightarrow>
             (case item0 predictions of Inl e \<Rightarrow> Inl e | Inr numeric_prediction \<Rightarrow>
              (case inverse_transform le [numeric_prediction] of Inl e \<Rightarrow> Inl e | Inr labels \<Rightarrow>
               (case item0 labels of Inl e \<Rightarrow> Inl e | Inr category_prediction \<Rightarrow>
                  Inr \<lparr>grievance_category = category_prediction,
                       confidence_score = None\<rparr>)))))))"

definition classify_grievance ::
  "(str \<Rightarrow> str) \<Rightarrow> ('m, 'a) models \<Rightarrow> str \<Rightarrow> http_error + classification_result" where
  "classify_grievance lower st d =
     (if grievance_classifier st = None \<or> vectorizer st = None \<or> label_encoder st = None
      then Inl (HTTPException 503 (Text (lit
        ''Grievance classification service unavailable - models not loaded. Check API logs.'')))
      else if d = [] \<or> length (strip d) < 5
      then Inl (HTTPException 400 (Text (lit
        ''Invalid grievance description. Please provide a more detailed text.'')))
      else
       (case classify_body lower (the (grievance_classifier st)) (the (vectorizer st))
               (the (label_encoder st)) d of
          Inl e \<Rightarrow> Inl (HTTPException 500 (WithException (lit ''Classification error: '') e))
        | Inr r \<Rightarrow> Inr r))"

definition detect_body ::
  "(str list, str list) predictor \<Rightarrow> str \<Rightarrow> py_exception + spam_result" where
  "detect_body m d =
     (case predict_proba m of
        Some proba \<Rightarrow>
          (case proba [d] of Inl e \<Rightarrow> Inl e | Inr rows \<Rightarrow>
           (case item0 rows of Inl e \<Rightarrow> Inl e | Inr probabilities \<Rightarrow>
            (case argmax probabilities of Inl e \<Rightarrow> Inl e | Inr idx \<Rightarrow>
               Inr \<lparr>is_spam = (idx \<noteq> 0),
                    confidence_score_spam = Some (probabilities ! idx)\<rparr>)))
      | None \<Rightarrow>
          (case predict m [d] of Inl e \<Rightarrow> Inl e | Inr predictions \<Rightarrow>
           (case item0 predictions of Inl e \<Rightarrow> Inl e | Inr p \<Rightarrow>
              Inr \<lparr>is_spam = (p \<noteq> 0), confidence_score_spam = None\<rparr>)))"

definition detect_spam :: "('m, 'a) models \<Rightarrow> str \<Rightarrow> http_error + spam_result" where
  "detect_spam st d =
     (if spam_detection_model st = None
      then Inl (HTTPException 503 (Text (lit
        ''Spam detection service unavailable - model not loaded. Check API logs.'')))
      else if d = [] \<or> length (strip d) < 5
      then Inl (HTTPException 400 (Text (lit
        ''Invalid text for spam detection. Please provide a more detailed text.'')))
      else
       (case detect_body (the (spam_detection_model st)) d of
          Inl e \<Rightarrow> Inl (HTTPException 500 (WithException (lit ''Spam detection error: '') e))
        | Inr r \<Rightarrow> Inr r))"

definition models_missing :: "('m, 'a) models \<Rightarrow> str list" where
  "models_missing st =
     (if grievance_classifier st = None \<or> vectorizer st = None \<or> label_encoder st = None
      then [lit ''grievance classification''] else []) @
     (if spam_detection_model st = None then [lit ''spam detection''] else [])"

text \<open>
  \<open>analyze_grievance\<close>. An \<open>HTTPException\<close> of one of the two calls is raised again
  unchanged; the calls raise nothing else.
\<close>

definition analyze_grievance ::
  "(str \<Rightarrow> str) \<Rightarrow> ('m, 'a) models \<Rightarrow> str \<Rightarrow> http_error + combined_result" where
  "analyze_grievance lower st d =
     (if models_missing st \<noteq> []
      then Inl (HTTPException 503 (Text
        (lit ''The following services are unavailable: '' @ join (lit '', '') (models_missing st))))
      else if d = [] \<or> length (strip d) < 5
      then Inl (HTTPException 400 (Text (lit
        ''Invalid grievance description. Please provide a more detailed text.'')))
      else
       (case classify_grievance lower st d of Inl e \<Rightarrow> Inl e | Inr classification_result \<Rightarrow>
        (case detect_spam st d of Inl e \<Rightarrow> Inl e | Inr spam_result \<Rightarrow>
           Inr \<lparr>grievance_category_combined = grievance_category classification_result,
                is_spam_combined = is_spam spam_result,
                category_confidence = confidence_score classification_result,
                spam_confidence = confidence_score_spam spam_result\<rparr>)))"

text \<open>The failure kinds of the specification are HTTP status codes here.\<close>

definition is_InvalidInput :: "http_error + 'r \<Rightarrow> bool" where
  "is_InvalidInput r \<longleftrightarrow> (case r of Inl e \<Rightarrow> status_code e = 400 | Inr _ \<Rightarrow> False)"

definition is_ServiceUnavailable :: "http_error + 'r \<Rightarrow> bool" where
  "is_ServiceUnavailable r \<longleftrightarrow> (case r of Inl e \<Rightarrow> status_code e = 503 | Inr _ \<Rightarrow> False)"

section \<open>main.py: document sessions and questions\<close>

text \<open>
  The module state: the spam model unpickled at import, the API key
  \<open>os.getenv("GEMINI_API_KEY", "your_api_key_here")\<close> and the session dictionary.
\<close>

record rag_state =
  model :: "(str list, str list) predictor"
  GEMINI_API_KEY :: str
  pdf_sessions :: "str \<rightharpoonup> str"

definition getenv :: "str option \<Rightarrow> str \<Rightarrow> str" where
  "getenv var fallback = (case var of None \<Rightarrow> fallback | Some v \<Rightarrow> v)"

definition initial_state :: "(str list, str list) predictor \<Rightarrow> str option \<Rightarrow> rag_state" where
  "initial_state m var =
     \<lparr>model = m, GEMINI_API_KEY = getenv var (lit ''your_api_key_here''),
      pdf_sessions = Map.empty\<rparr>"

text \<open>\<open>s.endswith(suffix)\<close>.\<close>

definition endswith :: "str \<Rightarrow> str \<Rightarrow> bool" where
  "endswith s suf \<longleftrightarrow> length suf \<le> length s \<and> drop (length s - length suf) s = suf"

text \<open>
  \<open>str(uuid.uuid4())\<close>, from Python's \<open>uuid\<close> module. \<open>uuid4\<close> reads 16 random bytes
  \<open>r\<close> as one 128-bit integer and builds \<open>UUID(bytes=r, version=4)\<close>, which overwrites
  six of the bits: \<open>int &= ~(0xc000 << 48); int |= 0x8000 << 48\<close> sets the variant and
  \<open>int &= ~(0xf000 << 64); int |= 4 << 76\<close> the version. \<open>str\<close> of it is
  \<open>'%032x' % int\<close> cut into groups of 8, 4, 4, 4 and 12 digits joined by hyphens.
\<close>

definition uuid_int :: "128 word \<Rightarrow> 128 word" where
  "uuid_int r =
     (((r AND NOT (push_bit 48 0xC000)) OR push_bit 48 0x8000) AND NOT (push_bit 64 0xF000))
       OR push_bit 76 4"

definition hexdigit :: "nat \<Rightarrow> nat" where
  "hexdigit n = (if n < 10 then 48 + n else 87 + n)"

definition hex32 :: "128 word \<Rightarrow> str" where
  "hex32 x = map (\<lambda>k. hexdigit (unat (drop_bit (4 * (31 - k)) x AND 15))) [0..<32]"

definition uuid_str :: "128 word \<Rightarrow> str" where
  "uuid_str x =
     (let h = hex32 x
      in take 8 h @ [45] @ take 4 (drop 8 h) @ [45] @ take 4 (drop 12 h) @ [45] @
         take 4 (drop 16 h) @ [45] @ drop 20 h)"

definition str_uuid4 :: "128 word \<Rightarrow> str" where
  "str_uuid4 r = uuid_str (uuid_int r)"

text \<open>
  \<open>predict\<close> has no \<open>try\<close>: an exception of the model leaves the handler as it is.
\<close>

definition predict_endpoint :: "rag_state \<Rightarrow> str \<Rightarrow> (py_exception + bool) \<times> rag_state" where
  "predict_endpoint st description =
     (case predict (model st) [description] of
        Inl e \<Rightarrow> (Inl e, st)
      | Inr predictions \<Rightarrow>
          (case item0 predictions of
             Inl e \<Rightarrow> (Inl e, st)
           | Inr prediction \<Rightarrow> (Inr (prediction \<noteq> 0), st)))"

text \<open>
  The loop of \<open>init_rag\<close> over the pages: \<open>text_content += page.extract_text() + "\n"\<close>.
  A page is the result of its \<open>extract_text\<close>, which may raise.
\<close>

fun extract_pages :: "str \<Rightarrow> (py_exception + str) list \<Rightarrow> py_exception + str" where
  "extract_pages text_content [] = Inr text_content"
| "extract_pages text_content (page # pages) =
     (case page of
        Inl e \<Rightarrow> Inl e
      | Inr t \<Rightarrow> extract_pages (text_content @ t @ [10]) pages)"

record upload_response =
  message :: str
  pages :: nat
  session_id :: str

text \<open>
  \<open>init_rag\<close>. The upload is given by its file name, by what \<open>PyPDF2.PdfReader\<close> makes
  of its bytes (an exception or the pages) and by the string \<open>str(uuid.uuid4())\<close> that
  the call draws from the system's random source: \<open>str_uuid4 r\<close> for the 16 random
  bytes \<open>r\<close>. The source stores under that string without looking it up first.
\<close>

definition init_rag ::
  "rag_state \<Rightarrow> str \<Rightarrow> py_exception + (py_exception + str) list \<Rightarrow> str
     \<Rightarrow> (http_error + upload_response) \<times> rag_state" where
  "init_rag st filename pdf_reader uuid4 =
     (if \<not> endswith filename (lit ''.pdf'')
      then (Inl (HTTPException 400 (Text (lit ''Only PDF files are allowed''))), st)
      else
       (case pdf_reader of
          Inl e \<Rightarrow>
            (Inl (HTTPException 500 (WithException (lit ''Error processing PDF: '') e)), st)
        | Inr reader_pages \<Rightarrow>
            (case extract_pages [] reader_pages of
               Inl e \<Rightarrow>
                 (Inl (HTTPException 500 (WithException (lit ''Error processing PDF: '') e)), st)
             | Inr text_content \<Rightarrow>
                 (Inr \<lparr>message = lit ''PDF processed successfully'',
                       pages = length reader_pages,
                       session_id = uuid4\<rparr>,
                  st\<lparr>pdf_sessions := (pdf_sessions st)(uuid4 \<mapsto> text_content)\<rparr>))))"

text \<open>The f-string of \<open>ask_question\<close>, line by line, each line indented by eight blanks.\<close>

definition indent :: str where
  "indent = lit ''        ''"

definition prompt :: "str \<Rightarrow> str \<Rightarrow> str" where
  "prompt content query =
     [10] @ indent @ lit ''Based on the following PDF content, please answer the question accurately and concisely.'' @
     [10] @ indent @
     [10] @ indent @ lit ''PDF Content:'' @
     [10] @ indent @ content @ lit ''  # Limit to first 10k characters to avoid token limits'' @
     [10] @ indent @
     [10] @ indent @ lit ''Question: '' @ query @
     [10] @ indent @
     [10] @ indent @ lit ''Please provide a clear and helpful answer based only on the information in the PDF.'' @
     [10] @ indent"

text \<open>
  \<open>ask_question\<close>. The generative backend is a parameter: given the model name and the
  prompt it returns \<open>response.text\<close> or raises.
\<close>

definition ask_question ::
  "(str \<Rightarrow> str \<Rightarrow> py_exception + str) \<Rightarrow> rag_state \<Rightarrow> str \<Rightarrow> str
     \<Rightarrow> (http_error + str) \<times> rag_state" where
  "ask_question backend st sid query =
     (if sid \<notin> dom (pdf_sessions st)
      then (Inl (HTTPException 400 (Text (lit
        ''Invalid session ID. Please upload a PDF first.''))), st)
      else
       (let pdf_content = the (pdf_sessions st sid) in
        if pdf_content = []
        then (Inl (HTTPException 400 (Text (lit ''No PDF content found for this session.''))), st)
        else if GEMINI_API_KEY st = lit ''your_api_key_here''
        then (Inl (HTTPException 503 (Text (lit
          ''Gemini API key not configured. Please set GEMINI_API_KEY environment variable.''))), st)
        else
         (case backend (lit ''gemini-1.5-flash'') (prompt (take 10000 pdf_content) query) of
            Inl e \<Rightarrow>
              (Inl (HTTPException 500 (WithException (lit ''Error generating answer: '') e)), st)
          | Inr answer \<Rightarrow> (Inr answer, st))))"

text \<open>The failure kinds of the document pipeline, as the source raises them.\<close>

definition SessionNotFound :: http_error where
  "SessionNotFound = HTTPException 400 (Text (lit ''Invalid session ID. Please upload a PDF first.''))"

definition EmptyDocument :: http_error where
  "EmptyDocument = HTTPException 400 (Text (lit ''No PDF content found for this session.''))"

definition BackendNotConfigured :: http_error where
  "BackendNotConfigured = HTTPException 503 (Text (lit
     ''Gemini API key not configured. Please set GEMINI_API_KEY environment variable.''))"

definition GenerationFailed :: "py_exception \<Rightarrow> http_error" where
  "GenerationFailed e = HTTPException 500 (WithException (lit ''Error generating answer: '') e)"

text \<open>The requests of main.py and the state after a sequence of them.\<close>

datatype request =
    Predict str
  | InitRag str "py_exception + (py_exception + str) list" str
  | AskQuestion str str

fun handle :: "(str \<Rightarrow> str \<Rightarrow> py_exception + str) \<Rightarrow> rag_state \<Rightarrow> request \<Rightarrow> rag_state" where
  "handle backend st (Predict d) = snd (predict_endpoint st d)"
| "handle backend st (InitRag filename pdf_reader uuid4) = snd (init_rag st filename pdf_reader uuid4)"
| "handle backend st (AskQuestion sid query) = snd (ask_question backend st sid query)"

fun run :: "(str \<Rightarrow> str \<Rightarrow> py_exception + str) \<Rightarrow> rag_state \<Rightarrow> request list \<Rightarrow> rag_state" where
  "run backend st [] = st"
| "run backend st (r # rs) = run backend (handle backend st r) rs"

text \<open>Every identifier an upload of the sequence draws is new to the store it meets.\<close>

fun fresh_ids :: "(str \<Rightarrow> str \<Rightarrow> py_exception + str) \<Rightarrow> rag_state \<Rightarrow> request list \<Rightarrow> bool" where
  "fresh_ids backend st [] = True"
| "fresh_ids backend st (r # rs) =
     ((case r of InitRag filename pdf_reader uuid4 \<Rightarrow> uuid4 \<notin> dom (pdf_sessions st) | _ \<Rightarrow> True)
      \<and> fresh_ids backend (handle backend st r) rs)"

section \<open>Predicates used in the statements\<close>

text \<open>An artifact that \<open>load_models\<close> turns into an object.\<close>

definition loads :: "'o artifact \<Rightarrow> bool" where
  "loads a = (case a of Loadable x \<Rightarrow> True | Corrupt e \<Rightarrow> False | Missing \<Rightarrow> False)"

text \<open>
  The classifier step completes: the pickle loads, or there is no pickle and the
  XGBoost file loads.
\<close>

definition classifier_loads :: "('m, 'a) model_files \<Rightarrow> bool" where
  "classifier_loads fs =
     (case grievance_classifier_pkl fs of
        Loadable c \<Rightarrow> True
      | Corrupt e \<Rightarrow> False
      | Missing \<Rightarrow>
          (case grievance_classifier_json fs of
             XgbLoaded b \<Rightarrow> True
           | XgbLoadError b e \<Rightarrow> False
           | XgbImportError e \<Rightarrow> False
           | XgbMissing \<Rightarrow> False))"

definition grievance_artifacts_load :: "('m, 'a) model_files \<Rightarrow> bool" where
  "grievance_artifacts_load fs \<longleftrightarrow>
     classifier_loads fs \<and> loads (vectorizer_pkl fs) \<and> loads (label_encoder_pkl fs)"

text \<open>
  \<open>i\<close> is the arg-max index of \<open>row\<close>: an index of a greatest entry, and the first such.
\<close>

definition is_argmax :: "real list \<Rightarrow> nat \<Rightarrow> bool" where
  "is_argmax row i \<longleftrightarrow>
     i < length row \<and> (\<forall>p \<in> set row. p \<le> row ! i) \<and> (\<forall>p \<in> set (take i row). p < row ! i)"

text \<open>Every entry of a probability output lies between 0 and 1.\<close>

definition probability_rows :: "real list list \<Rightarrow> bool" where
  "probability_rows rows \<longleftrightarrow> (\<forall>row \<in> set rows. \<forall>p \<in> set row. 0 \<le> p \<and> p \<le> 1)"

section \<open>Example objects\<close>

text \<open>
  A lower-casing function that agrees with \<open>str.lower\<close> on ASCII, on U+0130 (capital I
  with dot above, whose lower case is the two code points U+0069 U+0307) and on U+0307.
\<close>

definition example_lower :: "str \<Rightarrow> str" where
  "example_lower s =
     concat (map (\<lambda>c. if 65 \<le> c \<and> c \<le> 90 then [c + 32] else if c = 304 then [105, 775] else [c]) s)"

definition example_vectorizer :: "(str list, str list) vectorizer_obj" where
  "example_vectorizer = \<lparr>transform = (\<lambda>docs. Inr docs), toarray = (\<lambda>m. Inr m)\<rparr>"

definition example_classifier :: "(str list, str list) predictor" where
  "example_classifier =
     \<lparr>predict_proba = Some (\<lambda>m. Inr [[1 / 10, 7 / 10, 2 / 10]]), predict = (\<lambda>a. Inr [1])\<rparr>"

definition example_booster :: "(str list, str list) predictor" where
  "example_booster = \<lparr>predict_proba = None, predict = (\<lambda>a. Inr [2])\<rparr>"

definition example_label_encoder :: label_encoder_obj where
  "example_label_encoder =
     \<lparr>inverse_transform =
        (\<lambda>ids. if list_all (\<lambda>i. 0 \<le> i \<and> i < 3) ids
               then Inr (map (\<lambda>i. [lit ''billing'', lit ''roads'', lit ''water''] ! nat i) ids)
               else Inl (Raised (lit ''y contains previously unseen labels'')))\<rparr>"

definition example_spam_model :: "(str list, str list) predictor" where
  "example_spam_model =
     \<lparr>predict_proba = Some (\<lambda>docs. Inr [[3 / 100, 97 / 100]]), predict = (\<lambda>docs. Inr [1])\<rparr>"

definition example_models :: "(str list, str list) models" where
  "example_models =
     \<lparr>grievance_classifier = Some example_classifier, vectorizer = Some example_vectorizer,
      label_encoder = Some example_label_encoder, spam_detection_model = Some example_spam_model\<rparr>"

definition example_booster_models :: "(str list, str list) models" where
  "example_booster_models =
     \<lparr>grievance_classifier = Some example_booster, vectorizer = Some example_vectorizer,
      label_encoder = Some example_label_encoder, spam_detection_model = Some example_spam_model\<rparr>"

definition example_files :: "(str list, str list) model_files" where
  "example_files =
     \<lparr>grievance_classifier_pkl = Loadable example_classifier,
      grievance_classifier_json = XgbMissing,
      vectorizer_pkl = Missing,
      label_encoder_pkl = Loadable example_label_encoder,
      model_pkl = Loadable example_spam_model\<rparr>"

definition example_backend :: "str \<Rightarrow> str \<Rightarrow> py_exception + str" where
  "example_backend name p = Inr (lit ''30 days'')"

definition example_text :: str where
  "example_text = lit ''buy now!!! click here for free money''"

definition example_text_upper :: str where
  "example_text_upper = lit ''BUY NOW!!! CLICK HERE FOR FREE MONEY''"

text \<open>
  Two texts with the same lower case: three times \<open>i\<close> followed by the combining dot
  above (six code points), and three times the capital I with dot above (three code points).
\<close>

definition example_dotted :: str where
  "example_dotted = [105, 775, 105, 775, 105, 775]"

definition example_capital_dotted :: str where
  "example_capital_dotted = [304, 304, 304]"

text \<open>A three-page document whose last two pages yield no text, and an empty one.\<close>

definition example_pages :: "(py_exception + str) list" where
  "example_pages = [Inr (lit ''Refund policy: 30 days.''), Inr [], Inr []]"

text \<open>
  Three draws of 16 random bytes. The first two differ only in bits that \<open>uuid4\<close>
  overwrites; \<open>example_uuid\<close> is the identifier of both, \<open>example_other_uuid\<close> that
  of the third.
\<close>

definition example_random :: "128 word" where
  "example_random = 0x9f1c2d3e4b5a4c6d8e7f0a1b2c3d4e5f"

definition example_random_twin :: "128 word" where
  "example_random_twin = 0x9f1c2d3e4b5a1c6d0e7f0a1b2c3d4e5f"

definition example_other_random :: "128 word" where
  "example_other_random = 0x0b0e7a521c3d4f6a9b8c7d6e5f4a3b2c"

definition example_uuid :: str where
  "example_uuid = lit ''9f1c2d3e-4b5a-4c6d-8e7f-0a1b2c3d4e5f''"

definition example_other_uuid :: str where
  "example_other_uuid = lit ''0b0e7a52-1c3d-4f6a-9b8c-7d6e5f4a3b2c''"

definition example_state :: rag_state where
  "example_state = initial_state example_spam_model (Some (lit ''example-key''))"

definition example_failing_backend :: "str \<Rightarrow> str \<Rightarrow> py_exception + str" where
  "example_failing_backend name p = Inl (Raised (lit ''429 quota exceeded''))"

definition example_uploaded :: rag_state where
  "example_uploaded =
     snd (init_rag example_state (lit ''policy.pdf'') (Inr example_pages) example_uuid)"

definition example_empty_uploaded :: rag_state where
  "example_empty_uploaded =
     snd (init_rag example_uploaded (lit ''empty.pdf'') (Inr []) example_other_uuid)"

definition example_unconfigured :: rag_state where
  "example_unconfigured =
     snd (init_rag (initial_state example_spam_model None) (lit ''policy.pdf'')
       (Inr example_pages) example_uuid)"

definition example_stored_text :: str where
  "example_stored_text = lit ''Refund policy: 30 days.'' @ [10, 10, 10]"

definition example_requests :: "request list" where
  "example_requests =
     [Predict example_text,
      InitRag (lit ''empty.pdf'') (Inr []) example_other_uuid,
      AskQuestion example_uuid (lit ''any query'')]"

text \<open>
  Two texts of more than 10000 characters that differ only after the first 10000, and a
  backend that answers with the prompt it was given.
\<close>

definition example_long_text :: str where
  "example_long_text = replicate 10000 97 @ lit ''first ending''"

definition example_long_text_variant :: str where
  "example_long_text_variant = replicate 10000 97 @ lit ''another ending''"

definition example_long_state :: rag_state where
  "example_long_state = example_state\<lparr>pdf_sessions := [example_uuid \<mapsto> example_long_text]\<rparr>"

definition example_echo_backend :: "str \<Rightarrow> str \<Rightarrow> py_exception + str" where
  "example_echo_backend name p = Inr p"

section \<open>Facts about the example objects\<close>

lemma strip_hi: "strip (lit ''hi'') = lit ''hi''"
  by (simp add: strip_def lit_def isspace_def)

lemma hi_short: "length (strip (lit ''hi'')) < 5"
  by (simp add: strip_hi) (simp add: lit_def)


lemma example_text_valid: "\<not> invalid_description example_text"
  by (simp add: invalid_description_def example_text_def strip_def lit_def isspace_def)

lemma example_models_available:
  "\<not> classification_unavailable example_models" "\<not> spam_unavailable example_models"
  by (simp_all add: classification_unavailable_def spam_unavailable_def example_models_def)


lemma example_classify:
  "classify_grievance lower example_models example_text =
     Inr \<lparr>grievance_category = lit ''roads'', confidence_score = Some (7 / 10)\<rparr>"
  using example_text_valid
  by (simp add: classify_grievance_def invalid_description_def example_models_def
      classify_body_def example_vectorizer_def example_classifier_def example_label_encoder_def)

lemma example_detect:
  "detect_spam example_models example_text =
     Inr \<lparr>is_spam = True, confidence_score_spam = Some (97 / 100)\<rparr>"
  using example_text_valid
  by (simp add: detect_spam_def invalid_description_def example_models_def
      detect_body_def example_spam_model_def)

section \<open>Validation and availability\<close>

text \<open>
  C1, as stated, fails: with no model loaded the two-character text \<open>hi\<close>, whose trimmed
  length is 2, is answered by each of the three endpoints with status 503
  (ServiceUnavailable), not with status 400 (InvalidInput). Each endpoint tests the
  model variables before it validates the text.
\<close>

theorem short_text_unloaded_counterexample:
  "length (strip (lit ''hi'')) < 5
   \<and> is_ServiceUnavailable
       (classify_grievance example_lower (no_models :: (str list, str list) models) (lit ''hi''))
   \<and> \<not> is_InvalidInput
       (classify_grievance example_lower (no_models :: (str list, str list) models) (lit ''hi''))
   \<and> is_ServiceUnavailable (detect_spam (no_models :: (str list, str list) models) (lit ''hi''))
   \<and> \<not> is_InvalidInput (detect_spam (no_models :: (str list, str list) models) (lit ''hi''))
   \<and> is_ServiceUnavailable
       (analyze_grievance example_lower (no_models :: (str list, str list) models) (lit ''hi''))
   \<and> \<not> is_InvalidInput
       (analyze_grievance example_lower (no_models :: (str list, str list) models) (lit ''hi''))"
  using hi_short
  by (simp add: classify_grievance_def detect_spam_def analyze_grievance_def models_missing_def
      no_models_def is_ServiceUnavailable_def is_InvalidInput_def)

text \<open>
  C1, amended: for every text whose trimmed length is below 5, each of
  \<open>classify_grievance\<close>, \<open>detect_spam\<close> and \<open>analyze_grievance\<close> fails with InvalidInput
  (status 400) when the models the endpoint needs are loaded, and with
  ServiceUnavailable (status 503) when they are not: the availability check comes
  first.
\<close>

theorem short_text_rejection_order:
  "length (strip d) < 5 \<Longrightarrow>
     (if classification_unavailable st
      then is_ServiceUnavailable (classify_grievance lower st d)
      else is_InvalidInput (classify_grievance lower st d)) \<and>
     (if spam_unavailable st
      then is_ServiceUnavailable (detect_spam st d)
      else is_InvalidInput (detect_spam st d)) \<and>
     (if classification_unavailable st \<or> spam_unavailable st
      then is_ServiceUnavailable (analyze_grievance lower st d)
      else is_InvalidInput (analyze_grievance lower st d))"
  by (simp add: classify_grievance_def detect_spam_def analyze_grievance_def models_missing_def
      classification_unavailable_def spam_unavailable_def is_ServiceUnavailable_def
      is_InvalidInput_def)

theorem short_text_rejection_order_witness:
  "length (strip (lit ''hi'')) < 5
   \<and> \<not> classification_unavailable example_models \<and> \<not> spam_unavailable example_models
   \<and> is_InvalidInput (classify_grievance example_lower example_models (lit ''hi''))
   \<and> is_InvalidInput (detect_spam example_models (lit ''hi''))
   \<and> is_InvalidInput (analyze_grievance example_lower example_models (lit ''hi''))"
  using hi_short example_models_available
    short_text_rejection_order [OF hi_short, of example_models example_lower]
  by simp



section \<open>The combined analysis\<close>

text \<open>
  C5: on a valid text with both subsystems available, \<open>analyze_grievance\<close> is the merge
  of \<open>classify_grievance\<close> and \<open>detect_spam\<close> on that text: when both return a result,
  its category and category confidence are those of the classification and its spam
  flag and spam confidence those of the spam detection; when one of them fails, it
  fails with that error (the classification's first).
\<close>

theorem analyze_merges_results:
  "\<not> classification_unavailable st \<Longrightarrow> \<not> spam_unavailable st \<Longrightarrow> \<not> invalid_description d \<Longrightarrow>
   analyze_grievance lower st d =
     (case classify_grievance lower st d of
        Inl e \<Rightarrow> Inl e
      | Inr c \<Rightarrow>
          (case detect_spam st d of
             Inl e \<Rightarrow> Inl e
           | Inr s \<Rightarrow> Inr \<lparr>grievance_category_combined = grievance_category c,
                          is_spam_combined = is_spam s,
                          category_confidence = confidence_score c,
                          spam_confidence = confidence_score_spam s\<rparr>))"
  by (auto simp add: analyze_grievance_def models_missing_def invalid_description_def
      classification_unavailable_def spam_unavailable_def)

theorem analyze_merges_results_witness:
  "\<not> classification_unavailable example_models \<and> \<not> spam_unavailable example_models \<and>
   \<not> invalid_description example_text \<and>
   analyze_grievance example_lower example_models example_text =
     Inr \<lparr>grievance_category_combined = lit ''roads'', is_spam_combined = True,
          category_confidence = Some (7 / 10), spam_confidence = Some (97 / 100)\<rparr>"
  using analyze_merges_results [OF example_models_available example_text_valid, of example_lower]
    example_models_available example_text_valid
  by (simp add: example_classify example_detect)

section \<open>Loading the models\<close>

lemma example_files_fail: "\<not> grievance_artifacts_load example_files"
  by (simp add: grievance_artifacts_load_def example_files_def loads_def)

text \<open>
  C2, as stated, fails: with the classifier pickle and \<open>model.pkl\<close> present and
  \<open>vectorizer.pkl\<close> missing, \<open>load_models\<close> leaves the \<open>try\<close> block at the vectorizer
  and never reaches the spam model; the spam variable stays \<open>None\<close>, and on a valid
  text \<open>detect_spam\<close> fails with status 503 just as \<open>classify_grievance\<close> does.
\<close>

theorem spam_model_not_loaded_counterexample:
  "grievance_classifier_pkl example_files = Loadable example_classifier
   \<and> vectorizer_pkl example_files = Missing
   \<and> model_pkl example_files = Loadable example_spam_model
   \<and> \<not> invalid_description example_text
   \<and> is_ServiceUnavailable
       (classify_grievance example_lower (startup_event example_files) example_text)
   \<and> spam_detection_model (startup_event example_files) = None
   \<and> is_ServiceUnavailable (detect_spam (startup_event example_files) example_text)"
  using example_text_valid
  by (simp add: example_files_def startup_event_def load_models_def load_classifier_def
      load_vectorizer_def no_models_def classify_grievance_def detect_spam_def
      is_ServiceUnavailable_def)

text \<open>
  C2, amended: loading is sequential (classifier, vectorizer, label encoder, spam
  model) inside one \<open>try\<close> block and stops at the first failure. If one of the
  grievance-classification artifacts fails to load, the spam model is not installed,
  whatever \<open>model.pkl\<close> holds, and after start-up both \<open>classify_grievance\<close> and
  \<open>detect_spam\<close> fail with ServiceUnavailable (status 503) on every text.
\<close>

theorem load_stops_at_first_failure:
  "\<not> grievance_artifacts_load fs \<Longrightarrow>
     spam_detection_model (startup_event fs) = None \<and>
     is_ServiceUnavailable (classify_grievance lower (startup_event fs) d) \<and>
     is_ServiceUnavailable (detect_spam (startup_event fs) d)"
  by (auto simp add: grievance_artifacts_load_def classifier_loads_def loads_def startup_event_def
      load_models_def load_classifier_def load_vectorizer_def load_label_encoder_def
      load_spam_model_def no_models_def classify_grievance_def detect_spam_def
      is_ServiceUnavailable_def
      split: artifact.splits xgb_artifact.splits)

theorem load_stops_at_first_failure_witness:
  "\<not> grievance_artifacts_load example_files
   \<and> loads (model_pkl example_files)
   \<and> spam_detection_model (startup_event example_files) = None
   \<and> is_ServiceUnavailable
       (classify_grievance example_lower (startup_event example_files) example_text)
   \<and> is_ServiceUnavailable (detect_spam (startup_event example_files) example_text)"
  using example_files_fail
    load_stops_at_first_failure [OF example_files_fail, of example_lower example_text]
  by (simp add: loads_def example_files_def)

section \<open>The arg-max\<close>

lemma argmax_from_spec:
  "bi < length pre \<Longrightarrow> best = pre ! bi \<Longrightarrow> i = length pre \<Longrightarrow>
   (\<forall>p \<in> set pre. p \<le> best) \<Longrightarrow> (\<forall>p \<in> set (take bi pre). p < best) \<Longrightarrow>
   is_argmax (pre @ xs) (argmax_from best bi i xs)"
proof (induction xs arbitrary: pre best bi i)
  case Nil
  then show ?case by (simp add: is_argmax_def)
next
  case (Cons x xs)
  show ?case
  proof (cases "best < x")
    case True
    have "is_argmax ((pre @ [x]) @ xs) (argmax_from x (length pre) (Suc (length pre)) xs)"
    proof (rule Cons.IH)
      show "\<forall>p\<in>set (pre @ [x]). p \<le> x" using Cons.prems True by force
      show "\<forall>p\<in>set (take (length pre) (pre @ [x])). p < x" using Cons.prems True by force
    qed simp_all
    with True Cons.prems show ?thesis by simp
  next
    case False
    have "is_argmax ((pre @ [x]) @ xs) (argmax_from best bi (Suc (length pre)) xs)"
    proof (rule Cons.IH)
      show "bi < length (pre @ [x])" using Cons.prems by simp
      show "best = (pre @ [x]) ! bi" using Cons.prems by (simp add: nth_append)
      show "\<forall>p\<in>set (pre @ [x]). p \<le> best" using Cons.prems False by auto
      show "\<forall>p\<in>set (take bi (pre @ [x])). p < best" using Cons.prems by simp
    qed simp
    with False Cons.prems show ?thesis by simp
  qed
qed

lemma argmax_is_argmax: "argmax row = Inr i \<Longrightarrow> is_argmax row i"
proof (cases row)
  case Nil
  assume "argmax row = Inr i"
  with Nil show ?thesis by simp
next
  case (Cons x xs)
  assume a: "argmax row = Inr i"
  have "is_argmax ([x] @ xs) (argmax_from x 0 (length [x]) xs)"
    by (rule argmax_from_spec) simp_all
  with a Cons show ?thesis by simp
qed

lemma is_argmax_unique: "is_argmax row i \<Longrightarrow> is_argmax row j \<Longrightarrow> i = j"
proof (rule ccontr)
  assume i: "is_argmax row i" and j: "is_argmax row j" and ne: "i \<noteq> j"
  { fix a b assume a: "is_argmax row a" and b: "is_argmax row b" and lt: "a < b"
    have "row ! a \<in> set (take b row)"
      using a b lt by (metis is_argmax_def in_set_conv_nth length_take min_less_iff_conj nth_take)
    then have "row ! a < row ! b" using b by (simp add: is_argmax_def)
    moreover have "row ! b \<le> row ! a" using a b by (simp add: is_argmax_def)
    ultimately have False by simp }
  with i j ne show False by (metis nat_neq_iff)
qed

lemma is_argmax_argmax: "is_argmax row i \<Longrightarrow> argmax row = Inr i"
proof -
  assume i: "is_argmax row i"
  then have "row \<noteq> []" by (auto simp: is_argmax_def)
  then obtain x xs where "row = x # xs" by (cases row) auto
  then have "argmax row = Inr (argmax_from x 0 1 xs)" by simp
  moreover from this have "is_argmax row (argmax_from x 0 1 xs)" by (rule argmax_is_argmax)
  ultimately show ?thesis using i is_argmax_unique by metis
qed

lemma argmax_iff: "argmax row = Inr i \<longleftrightarrow> is_argmax row i"
  using argmax_is_argmax is_argmax_argmax by blast

section \<open>Dispatch on the probability capability\<close>

lemma item0_Inr: "item0 xs = Inr x \<longleftrightarrow> (\<exists>ys. xs = x # ys)"
  by (cases xs) auto

lemma classify_body_proba_aux:
  "predict_proba clf = Some proba \<Longrightarrow>
   classify_body lower clf vz le d = Inr r \<longleftrightarrow>
     (\<exists>m row rows i labs. transform vz [lower d] = Inr m \<and> proba m = Inr (row # rows) \<and>
        argmax row = Inr i \<and> inverse_transform le [int i] = Inr (grievance_category r # labs) \<and>
        confidence_score r = Some (row ! i))"
  by (cases r) (auto simp add: classify_body_def item0_Inr split: sum.splits)

lemma classify_body_proba:
  "predict_proba clf = Some proba \<Longrightarrow>
   classify_body lower clf vz le d = Inr r \<longleftrightarrow>
     (\<exists>m row rows i labs. transform vz [lower d] = Inr m \<and> proba m = Inr (row # rows) \<and>
        is_argmax row i \<and> inverse_transform le [int i] = Inr (grievance_category r # labs) \<and>
        confidence_score r = Some (row ! i))"
  using classify_body_proba_aux [of clf proba lower vz le d r] by (simp add: argmax_iff)

lemma classify_body_hard:
  "predict_proba clf = None \<Longrightarrow>
   classify_body lower clf vz le d = Inr r \<longleftrightarrow>
     (\<exists>m arr n ns labs. transform vz [lower d] = Inr m \<and> toarray vz m = Inr arr \<and>
        predict clf arr = Inr (n # ns) \<and> inverse_transform le [n] = Inr (grievance_category r # labs) \<and>
        confidence_score r = None)"
  by (cases r) (auto simp add: classify_body_def item0_Inr split: sum.splits)

lemma classify_loaded:
  "grievance_classifier st = Some clf \<Longrightarrow> vectorizer st = Some vz \<Longrightarrow> label_encoder st = Some le \<Longrightarrow>
   \<not> invalid_description d \<Longrightarrow>
   classify_grievance lower st d =
     (case classify_body lower clf vz le d of
        Inl e \<Rightarrow> Inl (HTTPException 500 (WithException (lit ''Classification error: '') e))
      | Inr r \<Rightarrow> Inr r)"
  by (simp add: classify_grievance_def invalid_description_def)

lemma detect_loaded:
  "spam_detection_model st = Some sm \<Longrightarrow> \<not> invalid_description d \<Longrightarrow>
   detect_spam st d =
     (case detect_body sm d of
        Inl e \<Rightarrow> Inl (HTTPException 500 (WithException (lit ''Spam detection error: '') e))
      | Inr r \<Rightarrow> Inr r)"
  by (simp add: detect_spam_def invalid_description_def)

lemma detect_body_proba_aux:
  "predict_proba sm = Some proba \<Longrightarrow>
   detect_body sm d = Inr s \<longleftrightarrow>
     (\<exists>row rows i. proba [d] = Inr (row # rows) \<and> argmax row = Inr i \<and>
        is_spam s = (i \<noteq> 0) \<and> confidence_score_spam s = Some (row ! i))"
  by (cases s) (auto simp add: detect_body_def item0_Inr split: sum.splits)

lemma detect_body_proba:
  "predict_proba sm = Some proba \<Longrightarrow>
   detect_body sm d = Inr s \<longleftrightarrow>
     (\<exists>row rows i. proba [d] = Inr (row # rows) \<and> is_argmax row i \<and>
        is_spam s = (i \<noteq> 0) \<and> confidence_score_spam s = Some (row ! i))"
  using detect_body_proba_aux [of sm proba d s] by (simp add: argmax_iff)

lemma detect_body_hard:
  "predict_proba sm = None \<Longrightarrow>
   detect_body sm d = Inr s \<longleftrightarrow>
     (\<exists>n ns. predict sm [d] = Inr (n # ns) \<and> is_spam s = (n \<noteq> 0) \<and> confidence_score_spam s = None)"
  by (cases s) (auto simp add: detect_body_def item0_Inr split: sum.splits)

lemma example_label_roads:
  "inverse_transform example_label_encoder [int (Suc 0)] = Inr [lit ''roads'']"
  by (simp add: example_label_encoder_def)

lemma example_label_water:
  "inverse_transform example_label_encoder [2] = Inr [lit ''water'']"
  by (simp add: example_label_encoder_def)

text \<open>
  C4: on a valid text with the models loaded, the result of \<open>classify_grievance\<close> is
  decided by whether the classifier has \<open>predict_proba\<close>. If it has, the endpoint
  returns \<open>r\<close> exactly when the probability row of the lower-cased, vectorized text has
  arg-max index \<open>i\<close>, the label encoder decodes \<open>i\<close> to the category of \<open>r\<close>, and the
  confidence of \<open>r\<close> is the row's entry at \<open>i\<close>. If it has not, the endpoint returns
  \<open>r\<close> exactly when the label encoder decodes the hard prediction to the category of
  \<open>r\<close> and the confidence of \<open>r\<close> is \<open>None\<close>. \<open>detect_spam\<close> dispatches in the same
  way, with the truth value of the index or of the prediction as its label.
\<close>

theorem classification_dispatch:
  "\<not> invalid_description d \<Longrightarrow>
   (grievance_classifier st = Some clf \<and> vectorizer st = Some vz \<and> label_encoder st = Some le \<longrightarrow>
     (classify_grievance lower st d = Inr r \<longleftrightarrow>
       (case predict_proba clf of
          Some proba \<Rightarrow>
            (\<exists>m row rows i labs. transform vz [lower d] = Inr m \<and> proba m = Inr (row # rows) \<and>
               is_argmax row i \<and> inverse_transform le [int i] = Inr (grievance_category r # labs) \<and>
               confidence_score r = Some (row ! i))
        | None \<Rightarrow>
            (\<exists>m arr n ns labs. transform vz [lower d] = Inr m \<and> toarray vz m = Inr arr \<and>
               predict clf arr = Inr (n # ns) \<and>
               inverse_transform le [n] = Inr (grievance_category r # labs) \<and>
               confidence_score r = None)))) \<and>
   (spam_detection_model st = Some sm \<longrightarrow>
     (detect_spam st d = Inr s \<longleftrightarrow>
       (case predict_proba sm of
          Some proba \<Rightarrow>
            (\<exists>row rows i. proba [d] = Inr (row # rows) \<and> is_argmax row i \<and>
               is_spam s = (i \<noteq> 0) \<and> confidence_score_spam s = Some (row ! i))
        | None \<Rightarrow>
            (\<exists>n ns. predict sm [d] = Inr (n # ns) \<and> is_spam s = (n \<noteq> 0) \<and>
               confidence_score_spam s = None))))"
proof (intro conjI impI)
  assume v: "\<not> invalid_description d"
    and l: "grievance_classifier st = Some clf \<and> vectorizer st = Some vz \<and> label_encoder st = Some le"
  have "classify_grievance lower st d = Inr r \<longleftrightarrow> classify_body lower clf vz le d = Inr r"
    using classify_loaded [of st clf vz le d lower] l v by (auto split: sum.splits)
  then show "classify_grievance lower st d = Inr r \<longleftrightarrow>
       (case predict_proba clf of
          Some proba \<Rightarrow>
            (\<exists>m row rows i labs. transform vz [lower d] = Inr m \<and> proba m = Inr (row # rows) \<and>
               is_argmax row i \<and> inverse_transform le [int i] = Inr (grievance_category r # labs) \<and>
               confidence_score r = Some (row ! i))
        | None \<Rightarrow>
            (\<exists>m arr n ns labs. transform vz [lower d] = Inr m \<and> toarray vz m = Inr arr \<and>
               predict clf arr = Inr (n # ns) \<and>
               inverse_transform le [n] = Inr (grievance_category r # labs) \<and>
               confidence_score r = None))"
    using classify_body_proba [of clf _ lower vz le d r] classify_body_hard [of clf lower vz le d r]
    by (cases "predict_proba clf") simp_all
next
  assume v: "\<not> invalid_description d" and l: "spam_detection_model st = Some sm"
  have "detect_spam st d = Inr s \<longleftrightarrow> detect_body sm d = Inr s"
    using detect_loaded [OF l v] by (auto split: sum.splits)
  then show "detect_spam st d = Inr s \<longleftrightarrow>
       (case predict_proba sm of
          Some proba \<Rightarrow>
            (\<exists>row rows i. proba [d] = Inr (row # rows) \<and> is_argmax row i \<and>
               is_spam s = (i \<noteq> 0) \<and> confidence_score_spam s = Some (row ! i))
        | None \<Rightarrow>
            (\<exists>n ns. predict sm [d] = Inr (n # ns) \<and> is_spam s = (n \<noteq> 0) \<and>
               confidence_score_spam s = None))"
    using detect_body_proba [of sm _ d s] detect_body_hard [of sm d s]
    by (cases "predict_proba sm") simp_all
qed

theorem classification_dispatch_witness:
  "\<not> invalid_description example_text \<and>
   predict_proba example_classifier \<noteq> None \<and>
   classify_grievance example_lower example_models example_text =
     Inr \<lparr>grievance_category = lit ''roads'', confidence_score = Some (7 / 10)\<rparr> \<and>
   predict_proba example_booster = None \<and>
   classify_grievance example_lower example_booster_models example_text =
     Inr \<lparr>grievance_category = lit ''water'', confidence_score = None\<rparr> \<and>
   predict_proba example_spam_model \<noteq> None \<and>
   detect_spam example_models example_text =
     Inr \<lparr>is_spam = True, confidence_score_spam = Some (97 / 100)\<rparr>"
proof -
  have am: "is_argmax [1 / 10, 7 / 10, 2 / 10] (Suc 0)"
    by (simp add: is_argmax_def)
  have as: "is_argmax [3 / 100, 97 / 100] (Suc 0)"
    by (simp add: is_argmax_def)
  have l3: "spam_detection_model example_models = Some example_spam_model"
    by (simp add: example_models_def)
  have r3: "\<exists>row rows i.
      (\<lambda>docs. Inr [[3 / 100, 97 / 100]]) [example_text] = Inr (row # rows) \<and> is_argmax row i \<and>
      True = (i \<noteq> 0) \<and> Some (97 / 100) = Some (row ! i)"
    using as
    by (intro exI [of _ "[3 / 100, 97 / 100]"] exI [of _ "[]"] exI [of _ "Suc 0"]) simp
  have c: "detect_spam example_models example_text =
     Inr \<lparr>is_spam = True, confidence_score_spam = Some (97 / 100)\<rparr>"
    using classification_dispatch [OF example_text_valid, of example_models example_classifier
        example_vectorizer example_label_encoder example_lower _ example_spam_model
        "\<lparr>is_spam = True, confidence_score_spam = Some (97 / 100)\<rparr>"] l3 r3
    by (simp add: example_spam_model_def)
  have l1: "grievance_classifier example_models = Some example_classifier \<and>
      vectorizer example_models = Some example_vectorizer \<and>
      label_encoder example_models = Some example_label_encoder"
    by (simp add: example_models_def)
  have l2: "grievance_classifier example_booster_models = Some example_booster \<and>
      vectorizer example_booster_models = Some example_vectorizer \<and>
      label_encoder example_booster_models = Some example_label_encoder"
    by (simp add: example_booster_models_def)
  have r1: "\<exists>m row rows i labs.
      transform example_vectorizer [example_lower example_text] = Inr m \<and>
      (\<lambda>m. Inr [[1 / 10, 7 / 10, 2 / 10]]) m = Inr (row # rows) \<and> is_argmax row i \<and>
      inverse_transform example_label_encoder [int i] = Inr (lit ''roads'' # labs) \<and>
      Some (7 / 10) = Some (row ! i)"
    using am example_label_roads
    by (intro exI [of _ "[example_lower example_text]"] exI [of _ "[1 / 10, 7 / 10, 2 / 10]"]
        exI [of _ "[]"] exI [of _ "Suc 0"]) (simp add: example_vectorizer_def)
  have r2: "\<exists>m arr n ns labs.
      transform example_vectorizer [example_lower example_text] = Inr m \<and>
      toarray example_vectorizer m = Inr arr \<and>
      predict example_booster arr = Inr (n # ns) \<and>
      inverse_transform example_label_encoder [n] = Inr (lit ''water'' # labs) \<and>
      (None :: real option) = None"
    using example_label_water
    by (intro exI [of _ "[example_lower example_text]"] exI [of _ "2"] exI [of _ "[]"])
      (simp add: example_vectorizer_def example_booster_def)
  have a: "classify_grievance example_lower example_models example_text =
     Inr \<lparr>grievance_category = lit ''roads'', confidence_score = Some (7 / 10)\<rparr>"
    using classification_dispatch [OF example_text_valid, of example_models example_classifier
        example_vectorizer example_label_encoder example_lower
        "\<lparr>grievance_category = lit ''roads'', confidence_score = Some (7 / 10)\<rparr>"] l1 r1
    by (simp add: example_classifier_def)
  have b: "classify_grievance example_lower example_booster_models example_text =
     Inr \<lparr>grievance_category = lit ''water'', confidence_score = None\<rparr>"
    using classification_dispatch [OF example_text_valid, of example_booster_models example_booster
        example_vectorizer example_label_encoder example_lower
        "\<lparr>grievance_category = lit ''water'', confidence_score = None\<rparr>"] l2 r2
    by (simp add: example_booster_def)
  show ?thesis
    using a b c example_text_valid
    by (simp add: example_classifier_def example_booster_def example_spam_model_def)
qed

section \<open>Confidence bounds\<close>

lemma classify_Inr_loaded:
  "classify_grievance lower st d = Inr c \<Longrightarrow>
   \<not> invalid_description d \<and>
   (\<exists>clf vz le. grievance_classifier st = Some clf \<and> vectorizer st = Some vz \<and>
      label_encoder st = Some le \<and> classify_body lower clf vz le d = Inr c)"
  by (auto simp add: classify_grievance_def invalid_description_def split: if_splits sum.splits)

lemma detect_Inr_loaded:
  "detect_spam st d = Inr s \<Longrightarrow>
   \<not> invalid_description d \<and>
   (\<exists>sm. spam_detection_model st = Some sm \<and> detect_body sm d = Inr s)"
  by (auto simp add: detect_spam_def invalid_description_def split: if_splits sum.splits)

lemma analyze_Inr:
  "analyze_grievance lower st d = Inr a \<Longrightarrow>
   \<exists>c s. classify_grievance lower st d = Inr c \<and> detect_spam st d = Inr s \<and>
     category_confidence a = confidence_score c \<and> spam_confidence a = confidence_score_spam s \<and>
     grievance_category_combined a = grievance_category c \<and> is_spam_combined a = is_spam s"
  by (auto simp add: analyze_grievance_def split: if_splits sum.splits)

lemma is_argmax_bounds:
  "is_argmax row i \<Longrightarrow> row \<in> set rows \<Longrightarrow> probability_rows rows \<Longrightarrow> 0 \<le> row ! i \<and> row ! i \<le> 1"
  by (simp add: is_argmax_def probability_rows_def)

lemma classify_confidence_bounds:
  assumes g: "\<forall>clf proba m rows. grievance_classifier st = Some clf \<longrightarrow>
        predict_proba clf = Some proba \<longrightarrow> proba m = Inr rows \<longrightarrow> probability_rows rows"
    and r: "classify_grievance lower st d = Inr c" and p: "confidence_score c = Some p"
  shows "0 \<le> p \<and> p \<le> 1"
proof -
  from classify_Inr_loaded [OF r] obtain clf vz le where
    l: "grievance_classifier st = Some clf" and b: "classify_body lower clf vz le d = Inr c"
    by blast
  show ?thesis
  proof (cases "predict_proba clf")
    case None
    with b p show ?thesis by (simp add: classify_body_hard)
  next
    case (Some proba)
    with b obtain m row rows i where pm: "proba m = Inr (row # rows)" and am: "is_argmax row i"
      and cs: "confidence_score c = Some (row ! i)"
      by (auto simp add: classify_body_proba)
    from g l Some pm have "probability_rows (row # rows)" by blast
    with am have "0 \<le> row ! i \<and> row ! i \<le> 1"
      using is_argmax_bounds [of row i "row # rows"] by simp
    with cs p show ?thesis by simp
  qed
qed

lemma detect_confidence_bounds:
  assumes g: "\<forall>sm proba docs rows. spam_detection_model st = Some sm \<longrightarrow>
        predict_proba sm = Some proba \<longrightarrow> proba docs = Inr rows \<longrightarrow> probability_rows rows"
    and r: "detect_spam st d = Inr s" and p: "confidence_score_spam s = Some p"
  shows "0 \<le> p \<and> p \<le> 1"
proof -
  from detect_Inr_loaded [OF r] obtain sm where
    l: "spam_detection_model st = Some sm" and b: "detect_body sm d = Inr s"
    by blast
  show ?thesis
  proof (cases "predict_proba sm")
    case None
    with b p show ?thesis by (simp add: detect_body_hard)
  next
    case (Some proba)
    with b obtain row rows i where pm: "proba [d] = Inr (row # rows)" and am: "is_argmax row i"
      and cs: "confidence_score_spam s = Some (row ! i)"
      by (auto simp add: detect_body_proba)
    from g l Some pm have "probability_rows (row # rows)" by blast
    with am have "0 \<le> row ! i \<and> row ! i \<le> 1"
      using is_argmax_bounds [of row i "row # rows"] by simp
    with cs p show ?thesis by simp
  qed
qed

lemma example_models_probabilities:
  "\<forall>clf proba m rows. grievance_classifier example_models = Some clf \<longrightarrow>
        predict_proba clf = Some proba \<longrightarrow> proba m = Inr rows \<longrightarrow> probability_rows rows"
  "\<forall>sm proba docs rows. spam_detection_model example_models = Some sm \<longrightarrow>
        predict_proba sm = Some proba \<longrightarrow> proba docs = Inr rows \<longrightarrow> probability_rows rows"
  by (auto simp add: example_models_def example_classifier_def example_spam_model_def
      probability_rows_def)

lemma example_analyze:
  "analyze_grievance lower example_models example_text =
     Inr \<lparr>grievance_category_combined = lit ''roads'', is_spam_combined = True,
          category_confidence = Some (7 / 10), spam_confidence = Some (97 / 100)\<rparr>"
  using example_models_available example_text_valid
  by (simp add: analyze_grievance_def models_missing_def classification_unavailable_def
      spam_unavailable_def invalid_description_def example_classify example_detect)

text \<open>
  C8: if every probability output of the loaded classifier and of the loaded spam model
  has all its entries between 0 and 1, then every confidence that is present in a
  result of \<open>classify_grievance\<close>, of \<open>detect_spam\<close> or of \<open>analyze_grievance\<close> lies
  between 0 and 1.
\<close>

theorem confidence_in_unit_interval:
  assumes g: "\<forall>clf proba m rows. grievance_classifier st = Some clf \<longrightarrow>
        predict_proba clf = Some proba \<longrightarrow> proba m = Inr rows \<longrightarrow> probability_rows rows"
    and s: "\<forall>sm proba docs rows. spam_detection_model st = Some sm \<longrightarrow>
        predict_proba sm = Some proba \<longrightarrow> proba docs = Inr rows \<longrightarrow> probability_rows rows"
  shows "(classify_grievance lower st d = Inr c \<longrightarrow> confidence_score c = Some p \<longrightarrow> 0 \<le> p \<and> p \<le> 1) \<and>
     (detect_spam st d = Inr sr \<longrightarrow> confidence_score_spam sr = Some p \<longrightarrow> 0 \<le> p \<and> p \<le> 1) \<and>
     (analyze_grievance lower st d = Inr a \<longrightarrow>
        (category_confidence a = Some p \<longrightarrow> 0 \<le> p \<and> p \<le> 1) \<and>
        (spam_confidence a = Some p \<longrightarrow> 0 \<le> p \<and> p \<le> 1))"
proof (intro conjI impI)
  assume "classify_grievance lower st d = Inr c" "confidence_score c = Some p"
  then show "0 \<le> p" "p \<le> 1" using classify_confidence_bounds [OF g] by blast+
next
  assume "detect_spam st d = Inr sr" "confidence_score_spam sr = Some p"
  then show "0 \<le> p" "p \<le> 1" using detect_confidence_bounds [OF s] by blast+
next
  assume a: "analyze_grievance lower st d = Inr a" and p: "category_confidence a = Some p"
  from analyze_Inr [OF a] p obtain c where "classify_grievance lower st d = Inr c"
    "confidence_score c = Some p" by auto
  then show "0 \<le> p" "p \<le> 1" using classify_confidence_bounds [OF g] by blast+
next
  assume a: "analyze_grievance lower st d = Inr a" and p: "spam_confidence a = Some p"
  from analyze_Inr [OF a] p obtain sr where "detect_spam st d = Inr sr"
    "confidence_score_spam sr = Some p" by auto
  then show "0 \<le> p" "p \<le> 1" using detect_confidence_bounds [OF s] by blast+
qed

theorem confidence_in_unit_interval_witness:
  "probability_rows [[1 / 10, 7 / 10, 2 / 10]] \<and> probability_rows [[3 / 100, 97 / 100]] \<and>
   classify_grievance example_lower example_models example_text =
     Inr \<lparr>grievance_category = lit ''roads'', confidence_score = Some (7 / 10)\<rparr> \<and>
   detect_spam example_models example_text =
     Inr \<lparr>is_spam = True, confidence_score_spam = Some (97 / 100)\<rparr> \<and>
   analyze_grievance example_lower example_models example_text =
     Inr \<lparr>grievance_category_combined = lit ''roads'', is_spam_combined = True,
          category_confidence = Some (7 / 10), spam_confidence = Some (97 / 100)\<rparr> \<and>
   (0::real) \<le> 7 / 10 \<and> (7 / 10 :: real) \<le> 1 \<and> (0::real) \<le> 97 / 100 \<and> (97 / 100 :: real) \<le> 1"
proof -
  have "(0::real) \<le> 7 / 10 \<and> (7 / 10 :: real) \<le> 1"
    using confidence_in_unit_interval [OF example_models_probabilities, of example_lower
        example_text _ "7 / 10" _
        "\<lparr>grievance_category_combined = lit ''roads'', is_spam_combined = True,
          category_confidence = Some (7 / 10), spam_confidence = Some (97 / 100)\<rparr>"]
      example_analyze [of example_lower]
    by simp
  moreover have "(0::real) \<le> 97 / 100 \<and> (97 / 100 :: real) \<le> 1"
    using confidence_in_unit_interval [OF example_models_probabilities, of example_lower
        example_text _ "97 / 100" _
        "\<lparr>grievance_category_combined = lit ''roads'', is_spam_combined = True,
          category_confidence = Some (7 / 10), spam_confidence = Some (97 / 100)\<rparr>"]
      example_analyze [of example_lower]
    by simp
  moreover
  have pr: "probability_rows [[1 / 10, 7 / 10, 2 / 10]]" "probability_rows [[3 / 100, 97 / 100]]"
    by (simp_all add: probability_rows_def)
  have "(0::real) \<le> 7 / 10 \<and> (7 / 10 :: real) \<le> 1"
    using confidence_in_unit_interval [OF example_models_probabilities, of example_lower example_text
        "\<lparr>grievance_category = lit ''roads'', confidence_score = Some (7 / 10)\<rparr>" "7 / 10"]
      example_classify [of example_lower]
    by simp
  moreover have "(0::real) \<le> 97 / 100 \<and> (97 / 100 :: real) \<le> 1"
    using confidence_in_unit_interval [OF example_models_probabilities, of example_lower example_text _ "97 / 100"
        "\<lparr>is_spam = True, confidence_score_spam = Some (97 / 100)\<rparr>"]
      example_detect
    by simp
  ultimately show ?thesis
    using pr example_classify [of example_lower] example_detect example_analyze [of example_lower]
    by simp
qed

section \<open>Case of the input\<close>

lemma classify_depends_on_lower:
  "lower d = lower d' \<Longrightarrow> classify_body lower clf vz le d = classify_body lower clf vz le d'"
  by (simp add: classify_body_def)

lemma example_text_upper_valid: "\<not> invalid_description example_text_upper"
  by (simp add: invalid_description_def example_text_upper_def strip_def lit_def isspace_def)

lemma example_lower_upper: "example_lower example_text_upper = example_lower example_text"
  by (simp add: example_lower_def example_text_upper_def example_text_def lit_def)

lemma example_dotted_valid: "\<not> invalid_description example_dotted"
  by (simp add: invalid_description_def example_dotted_def strip_def isspace_def)

lemma example_capital_dotted_invalid: "invalid_description example_capital_dotted"
  by (simp add: invalid_description_def example_capital_dotted_def strip_def isspace_def)

lemma example_lower_dotted: "example_lower example_dotted = example_lower example_capital_dotted"
  by (simp add: example_lower_def example_dotted_def example_capital_dotted_def)

text \<open>
  C9, as stated, fails: validation looks at the text as it was sent, lower-casing
  happens after it, and lower-casing can change the length. The six code points
  \<open>i\<close>, U+0307, \<open>i\<close>, U+0307, \<open>i\<close>, U+0307 are a valid text and are classified; the
  three code points U+0130 U+0130 U+0130 have the same lower case, but their length 3
  is below 5 and \<open>classify_grievance\<close> rejects them with status 400.
\<close>

theorem casing_variant_rejected_counterexample:
  "\<not> invalid_description example_dotted
   \<and> example_lower example_dotted = example_lower example_capital_dotted
   \<and> classify_grievance example_lower example_models example_dotted =
       Inr \<lparr>grievance_category = lit ''roads'', confidence_score = Some (7 / 10)\<rparr>
   \<and> is_InvalidInput (classify_grievance example_lower example_models example_capital_dotted)
   \<and> classify_grievance example_lower example_models example_dotted \<noteq>
       classify_grievance example_lower example_models example_capital_dotted"
proof -
  have a: "classify_grievance example_lower example_models example_dotted =
       Inr \<lparr>grievance_category = lit ''roads'', confidence_score = Some (7 / 10)\<rparr>"
    using example_dotted_valid
    by (simp add: classify_grievance_def invalid_description_def example_models_def
      classify_body_def example_vectorizer_def example_classifier_def example_label_encoder_def)
  have b: "is_InvalidInput (classify_grievance example_lower example_models example_capital_dotted)"
    using example_capital_dotted_invalid
    by (simp add: classify_grievance_def invalid_description_def example_models_def
        is_InvalidInput_def)
  from a b have "classify_grievance example_lower example_models example_dotted \<noteq>
       classify_grievance example_lower example_models example_capital_dotted"
    by (auto simp add: is_InvalidInput_def split: sum.splits)
  with a b example_dotted_valid example_lower_dotted show ?thesis by simp
qed

text \<open>
  C9, amended: for two texts that both pass validation and are equal after
  lower-casing, \<open>classify_grievance\<close> returns the same result against an unchanged
  model, because what is vectorized is the lower-cased text. \<open>detect_spam\<close> hands the
  text to the model as it was sent: whenever the two texts differ, some spam model
  tells them apart.
\<close>

theorem classification_ignores_case:
  "\<not> invalid_description d \<Longrightarrow> \<not> invalid_description d' \<Longrightarrow> lower d = lower d' \<Longrightarrow>
   classify_grievance lower st d = classify_grievance lower st d' \<and>
   (d \<noteq> d' \<longrightarrow>
     (\<exists>sm. detect_spam (st\<lparr>spam_detection_model := Some sm\<rparr>) d \<noteq>
           detect_spam (st\<lparr>spam_detection_model := Some sm\<rparr>) d'))"
proof (intro conjI impI)
  assume v: "\<not> invalid_description d" "\<not> invalid_description d'" and l: "lower d = lower d'"
  show "classify_grievance lower st d = classify_grievance lower st d'"
    using v by (simp add: classify_grievance_def invalid_description_def
        classify_depends_on_lower [of lower d d', OF l])
next
  assume v: "\<not> invalid_description d" "\<not> invalid_description d'" and ne: "d \<noteq> d'"
  let ?sm = "\<lparr>predict_proba = None, predict = (\<lambda>docs. Inr [if docs = [d] then 1 else 0])\<rparr>
    :: (str list, str list) predictor"
  have "detect_spam (st\<lparr>spam_detection_model := Some ?sm\<rparr>) d \<noteq>
        detect_spam (st\<lparr>spam_detection_model := Some ?sm\<rparr>) d'"
    using v ne by (simp add: detect_spam_def detect_body_def invalid_description_def)
  then show "\<exists>sm. detect_spam (st\<lparr>spam_detection_model := Some sm\<rparr>) d \<noteq>
           detect_spam (st\<lparr>spam_detection_model := Some sm\<rparr>) d'" by blast
qed

theorem classification_ignores_case_witness:
  "\<not> invalid_description example_text_upper \<and> \<not> invalid_description example_text \<and>
   example_lower example_text_upper = example_lower example_text \<and>
   example_text_upper \<noteq> example_text \<and>
   classify_grievance example_lower example_models example_text_upper =
     Inr \<lparr>grievance_category = lit ''roads'', confidence_score = Some (7 / 10)\<rparr> \<and>
   (\<exists>sm. detect_spam (example_models\<lparr>spam_detection_model := Some sm\<rparr>) example_text_upper \<noteq>
         detect_spam (example_models\<lparr>spam_detection_model := Some sm\<rparr>) example_text)"
proof -
  have ne: "example_text_upper \<noteq> example_text"
    by (simp add: example_text_upper_def example_text_def lit_def)
  show ?thesis
    using classification_ignores_case [of example_text_upper example_text example_lower example_models] example_classify [of example_lower]
      example_text_upper_valid example_text_valid example_lower_upper ne
    by simp
qed

section \<open>Questions about a document\<close>

lemma example_uuids_differ: "example_other_uuid \<noteq> example_uuid"
  by (simp add: example_other_uuid_def example_uuid_def lit_def)

lemma policy_pdf: "endswith (lit ''policy.pdf'') (lit ''.pdf'')"
  by (simp add: endswith_def lit_def)

lemma empty_pdf: "endswith (lit ''empty.pdf'') (lit ''.pdf'')"
  by (simp add: endswith_def lit_def)

lemma example_extract: "extract_pages [] example_pages = Inr example_stored_text"
  by (simp add: example_pages_def example_stored_text_def)

lemma example_upload:
  "init_rag example_state (lit ''policy.pdf'') (Inr example_pages) example_uuid =
     (Inr \<lparr>message = lit ''PDF processed successfully'', pages = 3, session_id = example_uuid\<rparr>,
      example_uploaded)"
  by (simp add: example_uploaded_def init_rag_def policy_pdf example_extract example_pages_def)

lemma example_uploaded_sessions:
  "pdf_sessions example_uploaded = [example_uuid \<mapsto> example_stored_text]"
  by (simp add: example_uploaded_def init_rag_def policy_pdf example_extract example_state_def
      initial_state_def)

lemma example_uploaded_key: "GEMINI_API_KEY example_uploaded = lit ''example-key''"
  by (simp add: example_uploaded_def init_rag_def policy_pdf example_extract example_state_def
      initial_state_def getenv_def)

lemma example_key_configured: "lit ''example-key'' \<noteq> lit ''your_api_key_here''"
  by (simp add: lit_def)

lemma example_stored_nonempty: "example_stored_text \<noteq> []"
  by (simp add: example_stored_text_def)

lemma example_empty_uploaded_sessions:
  "pdf_sessions example_empty_uploaded =
     [example_uuid \<mapsto> example_stored_text, example_other_uuid \<mapsto> []]"
  by (simp add: example_empty_uploaded_def init_rag_def empty_pdf example_uploaded_sessions)

lemma example_unconfigured_sessions:
  "pdf_sessions example_unconfigured = [example_uuid \<mapsto> example_stored_text]"
  by (simp add: example_unconfigured_def init_rag_def policy_pdf example_extract
      initial_state_def)

lemma example_unconfigured_key: "GEMINI_API_KEY example_unconfigured = lit ''your_api_key_here''"
  by (simp add: example_unconfigured_def init_rag_def policy_pdf example_extract
      initial_state_def getenv_def)

lemma prompt_template:
  "prompt content query =
          ([10] @ lit ''        Based on the following PDF content, please answer the question accurately and concisely.'' @
           [10] @ lit ''        '' @ [10] @ lit ''        PDF Content:'' @ [10] @ lit ''        '') @
          content @
          (lit ''  # Limit to first 10k characters to avoid token limits'' @
           [10] @ lit ''        '' @ [10] @ lit ''        Question: '') @
          query @
          ([10] @ lit ''        '' @
           [10] @ lit ''        Please provide a clear and helpful answer based only on the information in the PDF.'' @
           [10] @ lit ''        '')"
  by (simp add: prompt_def indent_def lit_def)

text \<open>
  C6: \<open>ask_question\<close> makes its checks in this order. A session id that is not in the
  store gives SessionNotFound, whatever else holds (so does the id \<open>not-a-real-id\<close> on
  the initial store). A stored text that is empty gives EmptyDocument. A non-empty text
  with the API key left at its placeholder gives BackendNotConfigured. Otherwise the
  backend is called with this string: the instruction and the heading \<open>PDF Content:\<close>,
  then the first 10000 characters of the stored text, then the rest of that line and
  \<open>Question:\<close>, then the query, then the closing instruction. Its answer is returned,
  and an exception of the backend gives GenerationFailed carrying that exception. A
  stored text with the same first 10000 characters gives the same result. The store is
  never changed.
\<close>

theorem ask_question_check_order:
  "(pdf_sessions st sid = None \<longrightarrow>
      ask_question backend st sid query = (Inl SessionNotFound, st)) \<and>
   (pdf_sessions st sid = Some [] \<longrightarrow>
      ask_question backend st sid query = (Inl EmptyDocument, st)) \<and>
   (pdf_sessions st sid = Some c \<and> c \<noteq> [] \<and> GEMINI_API_KEY st = lit ''your_api_key_here'' \<longrightarrow>
      ask_question backend st sid query = (Inl BackendNotConfigured, st)) \<and>
   (pdf_sessions st sid = Some c \<and> c \<noteq> [] \<and> GEMINI_API_KEY st \<noteq> lit ''your_api_key_here'' \<longrightarrow>
      ask_question backend st sid query =
        (case backend (lit ''gemini-1.5-flash'')
           (([10] @ lit ''        Based on the following PDF content, please answer the question accurately and concisely.'' @
           [10] @ lit ''        '' @ [10] @ lit ''        PDF Content:'' @ [10] @ lit ''        '') @
            take 10000 c @
            (lit ''  # Limit to first 10k characters to avoid token limits'' @
           [10] @ lit ''        '' @ [10] @ lit ''        Question: '') @
            query @
            ([10] @ lit ''        '' @
           [10] @ lit ''        Please provide a clear and helpful answer based only on the information in the PDF.'' @
           [10] @ lit ''        '')) of
           Inl e \<Rightarrow> (Inl (GenerationFailed e), st)
         | Inr answer \<Rightarrow> (Inr answer, st)) \<and>
      (take 10000 c' = take 10000 c \<longrightarrow>
         fst (ask_question backend (st\<lparr>pdf_sessions := (pdf_sessions st)(sid \<mapsto> c')\<rparr>) sid query) =
         fst (ask_question backend st sid query)))"
proof (intro conjI impI)
  show "pdf_sessions st sid = None \<Longrightarrow> ask_question backend st sid query = (Inl SessionNotFound, st)"
    by (simp add: ask_question_def SessionNotFound_def dom_def)
  show "pdf_sessions st sid = Some [] \<Longrightarrow> ask_question backend st sid query = (Inl EmptyDocument, st)"
    by (simp add: ask_question_def EmptyDocument_def dom_def)
  show "pdf_sessions st sid = Some c \<and> c \<noteq> [] \<and> GEMINI_API_KEY st = lit ''your_api_key_here'' \<Longrightarrow>
      ask_question backend st sid query = (Inl BackendNotConfigured, st)"
    by (simp add: ask_question_def BackendNotConfigured_def dom_def)
  assume a: "pdf_sessions st sid = Some c \<and> c \<noteq> [] \<and> GEMINI_API_KEY st \<noteq> lit ''your_api_key_here''"
  then have "ask_question backend st sid query =
        (case backend (lit ''gemini-1.5-flash'') (prompt (take 10000 c) query) of
           Inl e \<Rightarrow> (Inl (GenerationFailed e), st)
         | Inr answer \<Rightarrow> (Inr answer, st))"
    by (simp add: ask_question_def GenerationFailed_def dom_def split: sum.splits)
  then show "ask_question backend st sid query =
        (case backend (lit ''gemini-1.5-flash'')
           (([10] @ lit ''        Based on the following PDF content, please answer the question accurately and concisely.'' @
           [10] @ lit ''        '' @ [10] @ lit ''        PDF Content:'' @ [10] @ lit ''        '') @
            take 10000 c @
            (lit ''  # Limit to first 10k characters to avoid token limits'' @
           [10] @ lit ''        '' @ [10] @ lit ''        Question: '') @
            query @
            ([10] @ lit ''        '' @
           [10] @ lit ''        Please provide a clear and helpful answer based only on the information in the PDF.'' @
           [10] @ lit ''        '')) of
           Inl e \<Rightarrow> (Inl (GenerationFailed e), st)
         | Inr answer \<Rightarrow> (Inr answer, st))"
    unfolding prompt_template .
  assume t: "take 10000 c' = take 10000 c"
  from a t have "c' \<noteq> []" by auto
  with a t show "fst (ask_question backend (st\<lparr>pdf_sessions := (pdf_sessions st)(sid \<mapsto> c')\<rparr>) sid query) =
         fst (ask_question backend st sid query)"
    by (simp add: ask_question_def dom_def split: sum.splits)
qed

theorem ask_question_check_order_witness:
  "ask_question example_backend example_state (lit ''not-a-real-id'') (lit ''any query'') =
     (Inl SessionNotFound, example_state)
   \<and> ask_question example_backend example_empty_uploaded example_other_uuid (lit ''any query'') =
     (Inl EmptyDocument, example_empty_uploaded)
   \<and> ask_question example_backend example_unconfigured example_uuid (lit ''any query'') =
     (Inl BackendNotConfigured, example_unconfigured)
   \<and> ask_question example_backend example_uploaded example_uuid (lit ''What is the refund window?'') =
     (Inr (lit ''30 days''), example_uploaded)
   \<and> ask_question example_failing_backend example_uploaded example_uuid (lit ''any query'') =
     (Inl (GenerationFailed (Raised (lit ''429 quota exceeded''))), example_uploaded)
   \<and> fst (ask_question example_echo_backend example_uploaded example_uuid
         (lit ''What is the refund window?'')) =
       Inr (([10] @ lit ''        Based on the following PDF content, please answer the question accurately and concisely.'' @
           [10] @ lit ''        '' @ [10] @ lit ''        PDF Content:'' @ [10] @ lit ''        '') @
            example_stored_text @
            (lit ''  # Limit to first 10k characters to avoid token limits'' @
           [10] @ lit ''        '' @ [10] @ lit ''        Question: '') @
            lit ''What is the refund window?'' @
            ([10] @ lit ''        '' @
           [10] @ lit ''        Please provide a clear and helpful answer based only on the information in the PDF.'' @
           [10] @ lit ''        ''))
   \<and> fst (ask_question example_echo_backend example_long_state example_uuid (lit ''any query'')) =
       Inr (([10] @ lit ''        Based on the following PDF content, please answer the question accurately and concisely.'' @
           [10] @ lit ''        '' @ [10] @ lit ''        PDF Content:'' @ [10] @ lit ''        '') @
            replicate 10000 97 @
            (lit ''  # Limit to first 10k characters to avoid token limits'' @
           [10] @ lit ''        '' @ [10] @ lit ''        Question: '') @
            lit ''any query'' @
            ([10] @ lit ''        '' @
           [10] @ lit ''        Please provide a clear and helpful answer based only on the information in the PDF.'' @
           [10] @ lit ''        ''))
   \<and> example_long_text_variant \<noteq> example_long_text
   \<and> take 10000 example_long_text_variant = take 10000 example_long_text
   \<and> fst (ask_question example_echo_backend
         (example_long_state\<lparr>pdf_sessions :=
            (pdf_sessions example_long_state)(example_uuid \<mapsto> example_long_text_variant)\<rparr>)
         example_uuid (lit ''any query'')) =
       fst (ask_question example_echo_backend example_long_state example_uuid (lit ''any query''))"
proof -
  have a: "ask_question example_backend example_state (lit ''not-a-real-id'') (lit ''any query'') =
     (Inl SessionNotFound, example_state)"
    using ask_question_check_order [of example_state "lit ''not-a-real-id''" example_backend "lit ''any query''"]
    by (simp add: example_state_def initial_state_def)
  have b: "ask_question example_backend example_empty_uploaded example_other_uuid (lit ''any query'') =
     (Inl EmptyDocument, example_empty_uploaded)"
    using ask_question_check_order [of example_empty_uploaded example_other_uuid example_backend "lit ''any query''"]
    by (simp add: example_empty_uploaded_sessions)
  have c: "ask_question example_backend example_unconfigured example_uuid (lit ''any query'') =
     (Inl BackendNotConfigured, example_unconfigured)"
    using ask_question_check_order [of example_unconfigured example_uuid example_backend "lit ''any query''"
        example_stored_text] example_stored_nonempty
    by (simp add: example_unconfigured_sessions example_unconfigured_key)
  have d: "ask_question example_backend example_uploaded example_uuid (lit ''What is the refund window?'') =
     (Inr (lit ''30 days''), example_uploaded)"
    using ask_question_check_order [of example_uploaded example_uuid example_backend
        "lit ''What is the refund window?''" example_stored_text] example_stored_nonempty
      example_key_configured
    by (simp add: example_uploaded_sessions example_uploaded_key example_backend_def)
  have e: "ask_question example_failing_backend example_uploaded example_uuid (lit ''any query'') =
     (Inl (GenerationFailed (Raised (lit ''429 quota exceeded''))), example_uploaded)"
    using ask_question_check_order [of example_uploaded example_uuid example_failing_backend
        "lit ''any query''" example_stored_text] example_stored_nonempty
      example_key_configured
    by (simp add: example_uploaded_sessions example_uploaded_key example_failing_backend_def)
  have ne: "example_long_text_variant \<noteq> example_long_text"
    by (simp add: example_long_text_variant_def example_long_text_def lit_def)
  have tk: "take 10000 example_long_text_variant = take 10000 example_long_text"
    by (simp add: example_long_text_variant_def example_long_text_def)
  have nonempty: "example_long_text \<noteq> []"
    by (simp add: example_long_text_def lit_def)
  have stored: "pdf_sessions example_long_state example_uuid = Some example_long_text"
    by (simp add: example_long_state_def)
  have key: "GEMINI_API_KEY example_long_state \<noteq> lit ''your_api_key_here''"
    using example_key_configured
    by (simp add: example_long_state_def example_state_def initial_state_def getenv_def)
  have f: "fst (ask_question example_echo_backend
         (example_long_state\<lparr>pdf_sessions :=
            (pdf_sessions example_long_state)(example_uuid \<mapsto> example_long_text_variant)\<rparr>)
         example_uuid (lit ''any query'')) =
       fst (ask_question example_echo_backend example_long_state example_uuid (lit ''any query''))"
    using ask_question_check_order [of example_long_state example_uuid example_echo_backend
        "lit ''any query''" example_long_text example_long_text_variant]
      stored nonempty key tk
    by blast
  have short: "take 10000 example_stored_text = example_stored_text"
    by (simp add: example_stored_text_def lit_def)
  have long: "take 10000 example_long_text = replicate 10000 97"
    by (simp add: example_long_text_def)
  have g: "fst (ask_question example_echo_backend example_uploaded example_uuid
         (lit ''What is the refund window?'')) =
       Inr (([10] @ lit ''        Based on the following PDF content, please answer the question accurately and concisely.'' @
           [10] @ lit ''        '' @ [10] @ lit ''        PDF Content:'' @ [10] @ lit ''        '') @
            example_stored_text @
            (lit ''  # Limit to first 10k characters to avoid token limits'' @
           [10] @ lit ''        '' @ [10] @ lit ''        Question: '') @
            lit ''What is the refund window?'' @
            ([10] @ lit ''        '' @
           [10] @ lit ''        Please provide a clear and helpful answer based only on the information in the PDF.'' @
           [10] @ lit ''        ''))"
    using ask_question_check_order [of example_uploaded example_uuid example_echo_backend
        "lit ''What is the refund window?''" example_stored_text] example_stored_nonempty
      example_key_configured
    by (simp add: example_uploaded_sessions example_uploaded_key example_echo_backend_def short)
  have h: "fst (ask_question example_echo_backend example_long_state example_uuid (lit ''any query'')) =
       Inr (([10] @ lit ''        Based on the following PDF content, please answer the question accurately and concisely.'' @
           [10] @ lit ''        '' @ [10] @ lit ''        PDF Content:'' @ [10] @ lit ''        '') @
            replicate 10000 97 @
            (lit ''  # Limit to first 10k characters to avoid token limits'' @
           [10] @ lit ''        '' @ [10] @ lit ''        Question: '') @
            lit ''any query'' @
            ([10] @ lit ''        '' @
           [10] @ lit ''        Please provide a clear and helpful answer based only on the information in the PDF.'' @
           [10] @ lit ''        ''))"
    using ask_question_check_order [of example_long_state example_uuid example_echo_backend
        "lit ''any query''" example_long_text] stored nonempty key
    by (simp add: example_echo_backend_def long)
  from a b c d e ne tk f g h show ?thesis by simp
qed

section \<open>Sessions\<close>

lemma predict_keeps_state: "snd (predict_endpoint st d) = st"
  by (simp add: predict_endpoint_def split: sum.splits)

lemma ask_keeps_state: "snd (ask_question backend st sid q) = st"
  by (simp add: ask_question_def Let_def split: sum.splits)

lemma init_rag_sessions:
  "pdf_sessions (snd (init_rag st fn rd uuid4)) = pdf_sessions st \<or>
   (\<exists>t. pdf_sessions (snd (init_rag st fn rd uuid4)) = (pdf_sessions st)(uuid4 \<mapsto> t))"
  by (auto simp add: init_rag_def split: sum.splits)

lemma init_rag_frame:
  "uuid4 \<notin> dom (pdf_sessions st) \<Longrightarrow> sid \<in> dom (pdf_sessions st) \<Longrightarrow>
   pdf_sessions (snd (init_rag st fn rd uuid4)) sid = pdf_sessions st sid"
  using init_rag_sessions [of st fn rd uuid4] by (auto split: if_splits)

lemma init_rag_success:
  "init_rag st fn rd uuid4 = (Inr resp, st') \<Longrightarrow>
   session_id resp = uuid4 \<and>
   (\<exists>ps t. rd = Inr ps \<and> extract_pages [] ps = Inr t \<and> pages resp = length ps \<and>
      pdf_sessions st' = (pdf_sessions st)(uuid4 \<mapsto> t))"
  by (auto simp add: init_rag_def split: if_splits sum.splits)

lemma handle_frame:
  "(case r of InitRag fn rd uuid4 \<Rightarrow> uuid4 \<notin> dom (pdf_sessions st) | _ \<Rightarrow> True) \<Longrightarrow>
   sid \<in> dom (pdf_sessions st) \<Longrightarrow>
   pdf_sessions (handle backend st r) sid = pdf_sessions st sid"
  by (cases r) (simp_all add: predict_keeps_state ask_keeps_state init_rag_frame)

lemma run_frame:
  "fresh_ids backend st rs \<Longrightarrow> sid \<in> dom (pdf_sessions st) \<Longrightarrow>
   pdf_sessions (run backend st rs) sid = pdf_sessions st sid"
proof (induction rs arbitrary: st)
  case Nil
  then show ?case by simp
next
  case (Cons r rs)
  from Cons.prems have f: "(case r of InitRag fn rd uuid4 \<Rightarrow> uuid4 \<notin> dom (pdf_sessions st) | _ \<Rightarrow> True)"
    and g: "fresh_ids backend (handle backend st r) rs" by simp_all
  have h: "pdf_sessions (handle backend st r) sid = pdf_sessions st sid"
    using handle_frame [OF f Cons.prems(2)] .
  with Cons.prems(2) have "sid \<in> dom (pdf_sessions (handle backend st r))" by (auto simp: dom_def)
  from Cons.IH [OF g this] h show ?case by simp
qed

lemma example_empty_upload:
  "init_rag example_uploaded (lit ''empty.pdf'') (Inr []) example_other_uuid =
     (Inr \<lparr>message = lit ''PDF processed successfully'', pages = 0,
           session_id = example_other_uuid\<rparr>,
      example_empty_uploaded)"
  by (simp add: example_empty_uploaded_def init_rag_def empty_pdf)

lemma example_other_fresh: "example_other_uuid \<notin> dom (pdf_sessions example_uploaded)"
  using example_uuids_differ by (simp add: example_uploaded_sessions)

lemma example_uuid_stored: "example_uuid \<in> dom (pdf_sessions example_uploaded)"
  by (simp add: example_uploaded_sessions)

lemma example_requests_fresh: "fresh_ids example_backend example_uploaded example_requests"
  using example_other_fresh by (simp add: example_requests_def predict_keeps_state)

lemma handle_dom: "dom (pdf_sessions st) \<subseteq> dom (pdf_sessions (handle backend st r))"
proof (cases r)
  case (InitRag fn rd uuid4)
  then show ?thesis using init_rag_sessions [of st fn rd uuid4] by auto
qed (simp_all add: predict_keeps_state ask_keeps_state)

lemma run_dom: "dom (pdf_sessions st) \<subseteq> dom (pdf_sessions (run backend st rs))"
proof (induction rs arbitrary: st)
  case Nil
  show ?case by simp
next
  case (Cons r rs)
  have "dom (pdf_sessions st) \<subseteq> dom (pdf_sessions (handle backend st r))"
    by (rule handle_dom)
  also have "\<dots> \<subseteq> dom (pdf_sessions (run backend (handle backend st r) rs))"
    by (rule Cons.IH)
  finally show ?case by simp
qed

text \<open>The identifier: 36 characters, with the version digit \<open>4\<close> at index 14.\<close>

lemma bit_int_4: "bit (4 :: int) n \<longleftrightarrow> n = 2"
proof -
  have "(4 :: int) = push_bit 2 1" by (simp add: push_bit_eq_mult)
  then show ?thesis by (simp only: bit_simps) auto
qed

lemma version_nibble: "drop_bit 76 (uuid_int r) AND 15 = 4"
proof -
  have m15: "(15 :: 128 word) = mask 4" by (simp add: mask_eq_exp_minus_1)
  have c0: "(0xC000 :: 128 word) = push_bit 14 (mask 2)"
    by (simp add: mask_eq_exp_minus_1 push_bit_eq_mult)
  have f0: "(0xF000 :: 128 word) = push_bit 12 (mask 4)"
    by (simp add: mask_eq_exp_minus_1 push_bit_eq_mult)
  have e8: "(0x8000 :: 128 word) = push_bit 15 1" by (simp add: push_bit_eq_mult)
  show ?thesis
    unfolding uuid_int_def m15 c0 f0 e8
    by (rule bit_word_eqI) (auto simp add: bit_simps bit_int_4)
qed

lemma str_uuid4_length: "length (str_uuid4 r) = 36"
  by (simp add: str_uuid4_def uuid_str_def hex32_def Let_def)

lemma str_uuid4_version: "str_uuid4 r ! 14 = 52"
proof -
  have "str_uuid4 r ! 14 = hex32 (uuid_int r) ! 12"
    by (simp add: str_uuid4_def uuid_str_def Let_def nth_append hex32_def)
  also have "\<dots> = hexdigit (unat (drop_bit 76 (uuid_int r) AND 15))"
    by (simp add: hex32_def)
  also have "\<dots> = 52" by (simp add: version_nibble hexdigit_def)
  finally show ?thesis .
qed

lemma example_random_uuid: "str_uuid4 example_random = example_uuid"
  by code_simp

lemma example_random_twin_uuid: "str_uuid4 example_random_twin = example_uuid"
  by code_simp

lemma example_other_random_uuid: "str_uuid4 example_other_random = example_other_uuid"
  by code_simp

lemma example_randoms_differ: "example_random_twin \<noteq> example_random"
  by (simp add: example_random_twin_def example_random_def)

text \<open>
  C7, as stated, fails: \<open>init_rag\<close> stores under \<open>str(uuid.uuid4())\<close> without testing
  whether that key is in use, and the identifier is not new by construction. The draws
  \<open>example_random\<close> and \<open>example_random_twin\<close> are different 16-byte values with the
  same identifier; after an upload of the three-page document with the first, an upload
  of a zero-page document with the second replaces the stored text of the first session
  by the empty text.
\<close>

theorem upload_overwrites_counterexample:
  "example_random_twin \<noteq> example_random
   \<and> str_uuid4 example_random = example_uuid
   \<and> str_uuid4 example_random_twin = example_uuid
   \<and> init_rag example_state (lit ''policy.pdf'') (Inr example_pages) (str_uuid4 example_random) =
       (Inr \<lparr>message = lit ''PDF processed successfully'', pages = 3, session_id = example_uuid\<rparr>,
        example_uploaded)
   \<and> pdf_sessions example_uploaded example_uuid = Some example_stored_text
   \<and> example_stored_text \<noteq> []
   \<and> pdf_sessions
        (snd (init_rag example_uploaded (lit ''empty.pdf'') (Inr []) (str_uuid4 example_random_twin)))
        example_uuid = Some []"
  using example_randoms_differ example_upload example_stored_nonempty
  by (simp add: example_random_uuid example_random_twin_uuid example_uploaded_sessions
      init_rag_def empty_pdf)

text \<open>
  C7, amended: every successful upload creates its session under the identifier
  \<open>str(uuid.uuid4())\<close>, a 36-character version-4 UUID computed from 128 random bits, and
  stores without testing whether that identifier is in use. Whenever the identifier
  is not yet a key of the session map, the upload leaves the stored text of every
  existing session unchanged, and along any sequence of \<open>predict\<close>, \<open>init_rag\<close> and
  \<open>ask_question\<close> requests whose uploads draw identifiers that are not yet keys, every
  session of the starting store keeps its text. No request deletes a session, and
  \<open>predict\<close> and \<open>ask_question\<close> leave the whole state as it is.
\<close>

theorem uploads_keep_sessions:
  "(str_uuid4 r \<notin> dom (pdf_sessions st) \<longrightarrow>
      (\<forall>sid \<in> dom (pdf_sessions st).
         pdf_sessions (snd (init_rag st filename pdf_reader (str_uuid4 r))) sid =
         pdf_sessions st sid)) \<and>
   (init_rag st filename pdf_reader (str_uuid4 r) = (Inr resp, st') \<longrightarrow>
      session_id resp = str_uuid4 r \<and> length (session_id resp) = 36 \<and>
      session_id resp ! 14 = 52 \<and>
      dom (pdf_sessions st') = insert (str_uuid4 r) (dom (pdf_sessions st))) \<and>
   (fresh_ids backend st rs \<longrightarrow>
      (\<forall>sid \<in> dom (pdf_sessions st).
         pdf_sessions (run backend st rs) sid = pdf_sessions st sid)) \<and>
   dom (pdf_sessions st) \<subseteq> dom (pdf_sessions (run backend st rs)) \<and>
   snd (predict_endpoint st d) = st \<and>
   snd (ask_question backend st asked query) = st"
proof (intro conjI impI ballI)
  fix sid assume "str_uuid4 r \<notin> dom (pdf_sessions st)" "sid \<in> dom (pdf_sessions st)"
  then show "pdf_sessions (snd (init_rag st filename pdf_reader (str_uuid4 r))) sid =
      pdf_sessions st sid"
    by (rule init_rag_frame)
next
  assume a: "init_rag st filename pdf_reader (str_uuid4 r) = (Inr resp, st')"
  from init_rag_success [OF a] show i: "session_id resp = str_uuid4 r" by simp
  from i show "length (session_id resp) = 36" by (simp add: str_uuid4_length)
  from i show "session_id resp ! 14 = 52" by (simp add: str_uuid4_version)
  from init_rag_success [OF a]
  show "dom (pdf_sessions st') = insert (str_uuid4 r) (dom (pdf_sessions st))"
    by auto
next
  fix sid assume "fresh_ids backend st rs" "sid \<in> dom (pdf_sessions st)"
  then show "pdf_sessions (run backend st rs) sid = pdf_sessions st sid" by (rule run_frame)
next
  show "dom (pdf_sessions st) \<subseteq> dom (pdf_sessions (run backend st rs))" by (rule run_dom)
  show "snd (predict_endpoint st d) = st" by (rule predict_keeps_state)
  show "snd (ask_question backend st asked query) = st" by (rule ask_keeps_state)
qed

theorem uploads_keep_sessions_witness:
  "str_uuid4 example_other_random = example_other_uuid
   \<and> example_other_uuid \<notin> dom (pdf_sessions example_uploaded)
   \<and> pdf_sessions example_uploaded example_uuid = Some example_stored_text
   \<and> pdf_sessions (snd (init_rag example_uploaded (lit ''empty.pdf'') (Inr []) example_other_uuid))
        example_uuid = Some example_stored_text
   \<and> init_rag example_uploaded (lit ''empty.pdf'') (Inr []) example_other_uuid =
        (Inr \<lparr>message = lit ''PDF processed successfully'', pages = 0,
              session_id = example_other_uuid\<rparr>,
         example_empty_uploaded)
   \<and> length example_other_uuid = 36
   \<and> example_other_uuid ! 14 = 52
   \<and> dom (pdf_sessions example_empty_uploaded) =
        insert example_other_uuid (dom (pdf_sessions example_uploaded))
   \<and> fresh_ids example_backend example_uploaded example_requests
   \<and> pdf_sessions (run example_backend example_uploaded example_requests) example_uuid =
        Some example_stored_text"
proof -
  note T = uploads_keep_sessions [where r = example_other_random and st = example_uploaded
      and filename = "lit ''empty.pdf''" and pdf_reader = "Inr []"
      and resp = "\<lparr>message = lit ''PDF processed successfully'', pages = 0,
        session_id = example_other_uuid\<rparr>"
      and st' = example_empty_uploaded and backend = example_backend
      and rs = example_requests, unfolded example_other_random_uuid]
  have s: "pdf_sessions example_uploaded example_uuid = Some example_stored_text"
    by (simp add: example_uploaded_sessions)
  from T example_other_fresh have
    "\<forall>sid \<in> dom (pdf_sessions example_uploaded).
       pdf_sessions (snd (init_rag example_uploaded (lit ''empty.pdf'') (Inr []) example_other_uuid)) sid =
       pdf_sessions example_uploaded sid" by blast
  with example_uuid_stored s have a:
    "pdf_sessions (snd (init_rag example_uploaded (lit ''empty.pdf'') (Inr []) example_other_uuid))
        example_uuid = Some example_stored_text" by auto
  from T example_requests_fresh have
    "\<forall>sid \<in> dom (pdf_sessions example_uploaded).
       pdf_sessions (run example_backend example_uploaded example_requests) sid =
       pdf_sessions example_uploaded sid" by blast
  with example_uuid_stored s have b:
    "pdf_sessions (run example_backend example_uploaded example_requests) example_uuid =
        Some example_stored_text" by auto
  from T example_empty_upload have c:
    "length example_other_uuid = 36 \<and> example_other_uuid ! 14 = 52 \<and>
     dom (pdf_sessions example_empty_uploaded) =
       insert example_other_uuid (dom (pdf_sessions example_uploaded))" by simp
  from a b c s example_other_fresh example_requests_fresh example_empty_upload
    example_other_random_uuid
  show ?thesis by simp
qed

section \<open>Documents with and without pages\<close>






end
